theory Spec2Isabelle
  imports Complex_Main
begin

section \<open>GeoMapCam: capture, permission and gallery workflows\<close>

text \<open>
  The three units of the application are React function components and hooks written
  in TypeScript: \<^verbatim>\<open>GeoMapView\<close> (gallery and map), \<^verbatim>\<open>GeoCamera\<close> (capture) and
  \<^verbatim>\<open>usePermissions\<close> (permission gate). Each \<^verbatim>\<open>async\<close> handler is embedded as a function
  from the values its closure sees (component state and hook values) and from the answers
  of the platform libraries to a run: how the promise settles, the calls and log lines it
  issued in order, and the component state after all its \<^verbatim>\<open>setState\<close> calls.
\<close>

subsection \<open>JavaScript numbers\<close>

text \<open>
  A coordinate is a JavaScript \<^verbatim>\<open>number\<close>. \<open>Num r\<close> is a finite value (\<open>-0\<close> and \<open>0\<close>
  are both \<open>Num 0\<close>: they are equal under \<^verbatim>\<open>===\<close> and both falsy), \<open>NaN\<close> is the
  not-a-number value. An optional field that is \<^verbatim>\<open>undefined\<close> is \<open>None\<close>.
\<close>

datatype number = Num real | NaN

text \<open>\<^verbatim>\<open>x !== 0\<close>: \<^verbatim>\<open>NaN\<close> is different from every number.\<close>

fun strict_neq_zero :: "number \<Rightarrow> bool" where
  "strict_neq_zero (Num r) = (r \<noteq> 0)"
| "strict_neq_zero NaN = True"

text \<open>Truthiness of a number: \<^verbatim>\<open>0\<close> and \<^verbatim>\<open>NaN\<close> are falsy.\<close>

fun truthy :: "number \<Rightarrow> bool" where
  "truthy (Num r) = (r \<noteq> 0)"
| "truthy NaN = False"

text \<open>\<^verbatim>\<open>x || 0\<close> for an optional number \<open>x\<close>.\<close>

definition or_zero :: "number option \<Rightarrow> number" where
  "or_zero x = (case x of None \<Rightarrow> Num 0 | Some v \<Rightarrow> if truthy v then v else Num 0)"

subsection \<open>Runs of an asynchronous handler\<close>

datatype permission =
    ANDROID_CAMERA | IOS_CAMERA | ANDROID_ACCESS_FINE_LOCATION | IOS_LOCATION_WHEN_IN_USE

record getPhotosParams =
  first :: nat
  assetType :: string
  groupName :: string
  include_fields :: "string list"

text \<open>
  What a handler does to the outside, in the order it does it: lines written with
  \<^verbatim>\<open>console.error\<close> (the fixed first argument), dialogs, and calls into the platform
  libraries with the arguments that vary (a save is always of type \<^verbatim>\<open>photo\<close>, a shutter
  call always without flash).
\<close>

datatype effect =
    ConsoleError string
  | AlertCall string
  | AlertAlert string string
  | CameraRequestPermission
  | GeolocationGetCurrentPosition
  | CameraTakePhoto
  | CameraRollSave string string
  | CameraRollGetPhotos getPhotosParams
  | PermissionCheck permission
  | PermissionRequest permission

text \<open>A promise resolves with a value or rejects with the message of the error thrown.\<close>

datatype 'r outcome = Resolved 'r | Rejected string

record ('r, 'st) run =
  outcome :: "'r outcome"
  trace :: "effect list"
  final :: 'st

subsection \<open>Gallery reconstruction (\<^verbatim>\<open>GeoMapView\<close>)\<close>

record PhotoLocation =
  latitude :: number
  longitude :: number
  timestamp :: int

record PhotoDimensions =
  width :: real
  height :: real

record PhotoData =
  photo_id :: string
  uri :: string
  location :: PhotoLocation
  dimensions :: PhotoDimensions

record Region =
  region_latitude :: number
  region_longitude :: number
  latitudeDelta :: real
  longitudeDelta :: real

text \<open>
  An entry of the photo library as \<^verbatim>\<open>CameraRoll.getPhotos\<close> returns it: \<^verbatim>\<open>node.image\<close>
  with its uri and size, \<^verbatim>\<open>node.timestamp\<close> (the time the photo was taken, which
  \<^verbatim>\<open>loadPhotos\<close> never reads), and \<^verbatim>\<open>node.location\<close>, which is \<^verbatim>\<open>null\<close> or an object
  whose \<^verbatim>\<open>latitude\<close> and \<^verbatim>\<open>longitude\<close> may each be missing.
\<close>

record NodeImage =
  image_uri :: string
  image_width :: real
  image_height :: real

record NodeLocation =
  loc_latitude :: "number option"
  loc_longitude :: "number option"

record PhotoNode =
  node_image :: NodeImage
  node_timestamp :: int
  node_location :: "NodeLocation option"

record map_state =
  photos :: "PhotoData list"
  selectedPhoto :: "PhotoData option"
  region :: Region

text \<open>The state the component mounts with; the region is the centre of India.\<close>

definition initial_map_state :: map_state where
  "initial_map_state =
     \<lparr>photos = [], selectedPhoto = None,
      region = \<lparr>region_latitude = Num 20.5937, region_longitude = Num 78.9629,
                latitudeDelta = 20, longitudeDelta = 20\<rparr>\<rparr>"

text \<open>
  What \<^verbatim>\<open>loadPhotos\<close> reads besides the component state: the flag of the permission
  hook, the answer of the photo library to a query (an error message when it throws), and
  the clock: \<open>dateNow k\<close> is what \<^verbatim>\<open>Date.now()\<close> returns while entry \<open>k\<close> is mapped.
\<close>

record map_env =
  permissionsGranted :: bool
  getPhotos :: "getPhotosParams \<Rightarrow> string + PhotoNode list"
  dateNow :: "nat \<Rightarrow> int"

text \<open>The query of \<^verbatim>\<open>loadPhotos\<close>.\<close>

definition photosQuery :: getPhotosParams where
  "photosQuery =
     \<lparr>first = 50, assetType = ''Photos'', groupName = ''GeoMapCamera'',
      include_fields = [''location'', ''imageSize'', ''filename'']\<rparr>"

text \<open>The body of the \<^verbatim>\<open>edges.map\<close> callback; \<open>now\<close> is its reading of the clock.\<close>

definition processNode :: "int \<Rightarrow> PhotoNode \<Rightarrow> PhotoData" where
  "processNode now node =
     (let location = (case node_location node of
                        None \<Rightarrow> \<lparr>loc_latitude = None, loc_longitude = None\<rparr>
                      | Some l \<Rightarrow> l)
      in \<lparr>photo_id = image_uri (node_image node),
          uri = image_uri (node_image node),
          location = \<lparr>latitude = or_zero (loc_latitude location),
                      longitude = or_zero (loc_longitude location),
                      timestamp = now\<rparr>,
          dimensions = \<lparr>width = image_width (node_image node),
                        height = image_height (node_image node)\<rparr>\<rparr>)"

text \<open>The predicate of the \<^verbatim>\<open>.filter\<close> that follows the map.\<close>

definition hasCoordinates :: "PhotoData \<Rightarrow> bool" where
  "hasCoordinates photo =
     (strict_neq_zero (latitude (location photo)) \<and> strict_neq_zero (longitude (location photo)))"

definition mapEdges :: "(nat \<Rightarrow> int) \<Rightarrow> PhotoNode list \<Rightarrow> PhotoData list" where
  "mapEdges clock edges = map2 (\<lambda>k node. processNode (clock k) node) [0..<length edges] edges"

definition processPhotos :: "(nat \<Rightarrow> int) \<Rightarrow> PhotoNode list \<Rightarrow> PhotoData list" where
  "processPhotos clock edges = filter hasCoordinates (mapEdges clock edges)"

definition loadPhotos :: "map_env \<Rightarrow> map_state \<Rightarrow> (unit, map_state) run" where
  "loadPhotos env s =
     (if \<not> permissionsGranted env then \<lparr>outcome = Resolved (), trace = [], final = s\<rparr>
      else case getPhotos env photosQuery of
        Inl error \<Rightarrow>
          \<lparr>outcome = Resolved (),
           trace = [CameraRollGetPhotos photosQuery, ConsoleError ''Error loading photos:''],
           final = s\<rparr>
      | Inr edges \<Rightarrow>
          (let processedPhotos = processPhotos (dateNow env) edges;
               s1 = s\<lparr>photos := processedPhotos\<rparr>
           in \<lparr>outcome = Resolved (),
               trace = [CameraRollGetPhotos photosQuery],
               final = (case processedPhotos of
                          [] \<Rightarrow> s1
                        | lastPhoto # _ \<Rightarrow>
                            s1\<lparr>region := \<lparr>region_latitude = latitude (location lastPhoto),
                                          region_longitude = longitude (location lastPhoto),
                                          latitudeDelta = 0.02,
                                          longitudeDelta = 0.02\<rparr>\<rparr>)\<rparr>))"

text \<open>The \<^verbatim>\<open>onPress\<close> handler of a thumbnail of the photo strip.\<close>

definition thumbnailPress :: "PhotoData \<Rightarrow> map_state \<Rightarrow> map_state" where
  "thumbnailPress item s =
     s\<lparr>selectedPhoto := Some item,
       region := \<lparr>region_latitude = latitude (location item),
                  region_longitude = longitude (location item),
                  latitudeDelta = 0.005,
                  longitudeDelta = 0.005\<rparr>\<rparr>"

text \<open>The \<^verbatim>\<open>onPress\<close> handler of a marker of the map.\<close>

definition markerPress :: "PhotoData \<Rightarrow> map_state \<Rightarrow> map_state" where
  "markerPress photo s = s\<lparr>selectedPhoto := Some photo\<rparr>"

subsection \<open>Capture workflow (\<^verbatim>\<open>GeoCamera\<close>)\<close>

record LocationData = PhotoLocation +
  date :: string

record CapturedImageData =
  captured_uri :: string
  captured_location :: LocationData

datatype CameraPosition = Front | Back

record cam_state =
  capturedImage :: "CapturedImageData option"
  cam_location :: "LocationData option"
  isCapturing :: bool
  cameraPosition :: CameraPosition
  cameraError :: "string option"

definition initial_cam_state :: cam_state where
  "initial_cam_state =
     \<lparr>capturedImage = None, cam_location = None, isCapturing = False,
      cameraPosition = Back, cameraError = None\<rparr>"

datatype platformOS = Android | Ios | OtherOS

text \<open>The position handed to the success callback of \<^verbatim>\<open>Geolocation.getCurrentPosition\<close>.\<close>

record GeoPosition =
  coords_latitude :: number
  coords_longitude :: number
  position_timestamp :: int

text \<open>A camera device as \<^verbatim>\<open>useCameraDevices\<close> lists it, with its photo formats.\<close>

record CameraFormat =
  photoWidth :: nat
  photoHeight :: nat

record CameraDevice =
  device_position :: CameraPosition
  device_formats :: "CameraFormat list"

text \<open>The file the camera returns; only its \<^verbatim>\<open>path\<close> is read.\<close>

record PhotoFile =
  path :: string

text \<open>
  What \<^verbatim>\<open>takePhoto\<close> reads besides the component state. \<open>hasPermission\<close> and
  \<open>requestPermission\<close> come from the camera library's permission hook (the answer is the
  granted flag, or the message of an error); \<open>cameraRefCurrent\<close> says that
  \<^verbatim>\<open>cameraRef.current\<close> is set when the guard reads it; \<open>getCurrentPosition\<close> is the
  position of the success callback or the error of the error callback (the request is
  made with a timeout of 15 seconds, after which the library calls the error callback, so
  one of the two callbacks is always called); \<open>cam_dateNow\<close> and \<open>newDate\<close> are the clock as \<^verbatim>\<open>Date.now()\<close> and
  \<^verbatim>\<open>new Date()\<close> read it in the error callback; \<open>toLocaleString\<close> formats a time;
  \<open>cameraTakePhoto\<close> is the error thrown by the shutter call or the file it returns
  (\<open>None\<close> for \<^verbatim>\<open>null\<close> or \<^verbatim>\<open>undefined\<close>); \<open>cameraRollSave\<close> answers a save of a path
  into an album; \<open>devices\<close> are the camera devices of the phone.
\<close>

record cam_env =
  hasPermission :: bool
  requestPermission :: "string + bool"
  cameraRefCurrent :: bool
  getCurrentPosition :: "string + GeoPosition"
  cam_dateNow :: int
  newDate :: int
  toLocaleString :: "int \<Rightarrow> string"
  cameraTakePhoto :: "string + PhotoFile option"
  platform_OS :: platformOS
  cameraRollSave :: "string \<Rightarrow> string \<Rightarrow> string + unit"
  devices :: "CameraDevice list"

text \<open>
  The module declares its own \<^verbatim>\<open>function alert(arg0: string)\<close> after the component; its
  body is \<^verbatim>\<open>throw new Error('Function not implemented.')\<close>. Every \<^verbatim>\<open>alert(...)\<close> of
  the module calls this function.
\<close>

definition alert :: "string \<Rightarrow> string + unit" where
  "alert arg0 = Inl ''Function not implemented.''"

text \<open>
  \<^verbatim>\<open>getCurrentLocation\<close> never rejects: the error callback resolves with the location
  \<open>(0, 0)\<close> stamped with the current time.
\<close>

definition getCurrentLocation :: "cam_env \<Rightarrow> effect list \<times> LocationData" where
  "getCurrentLocation env =
     (case getCurrentPosition env of
        Inr position \<Rightarrow>
          ([GeolocationGetCurrentPosition],
           \<lparr>latitude = coords_latitude position,
            longitude = coords_longitude position,
            timestamp = position_timestamp position,
            date = toLocaleString env (position_timestamp position)\<rparr>)
      | Inl error \<Rightarrow>
          ([GeolocationGetCurrentPosition, ConsoleError ''Error getting location:''],
           \<lparr>latitude = Num 0,
            longitude = Num 0,
            timestamp = cam_dateNow env,
            date = toLocaleString env (newDate env)\<rparr>))"

definition filePathOf :: "platformOS \<Rightarrow> string \<Rightarrow> string" where
  "filePathOf os p = (if os = Android then ''file://'' @ p else p)"

text \<open>
  The inner \<^verbatim>\<open>try\<close> around \<^verbatim>\<open>CameraRoll.save\<close>: its \<^verbatim>\<open>catch\<close> logs the error and
  falls through.
\<close>

definition saveToCameraRoll :: "cam_env \<Rightarrow> string \<Rightarrow> effect list" where
  "saveToCameraRoll env filePath =
     (case cameraRollSave env filePath ''GeoMapCamera'' of
        Inr ok \<Rightarrow> [CameraRollSave filePath ''GeoMapCamera'']
      | Inl saveError \<Rightarrow>
          [CameraRollSave filePath ''GeoMapCamera'', ConsoleError ''Error saving to camera roll:''])"

text \<open>
  The block of the outer \<^verbatim>\<open>try\<close>, run on the state \<open>s\<close> that the two \<^verbatim>\<open>setState\<close>
  calls before it have produced. \<open>Rejected e\<close> is the error \<open>e\<close> thrown out of the block.
\<close>

definition takePhoto_try :: "cam_env \<Rightarrow> cam_state \<Rightarrow> (unit, cam_state) run" where
  "takePhoto_try env s =
     (let (tr, locationData) = getCurrentLocation env;
          s1 = s\<lparr>cam_location := Some locationData\<rparr>
      in case cameraTakePhoto env of
           Inl error \<Rightarrow> \<lparr>outcome = Rejected error, trace = tr @ [CameraTakePhoto], final = s1\<rparr>
         | Inr None \<Rightarrow>
             \<lparr>outcome = Rejected ''Failed to capture photo'', trace = tr @ [CameraTakePhoto],
              final = s1\<rparr>
         | Inr (Some photo) \<Rightarrow>
             if path photo = [] then
               \<lparr>outcome = Rejected ''Failed to capture photo'', trace = tr @ [CameraTakePhoto],
                final = s1\<rparr>
             else
               (let filePath = filePathOf (platform_OS env) (path photo)
                in \<lparr>outcome = Resolved (),
                    trace = tr @ [CameraTakePhoto] @ saveToCameraRoll env filePath,
                    final = s1\<lparr>capturedImage :=
                                 Some \<lparr>captured_uri = filePath,
                                       captured_location = locationData\<rparr>\<rparr>\<rparr>))"

text \<open>The \<^verbatim>\<open>catch\<close> of the outer \<^verbatim>\<open>try\<close>; its last statement is a call of \<open>alert\<close>.\<close>

definition takePhoto_catch :: "(unit, cam_state) run \<Rightarrow> (unit, cam_state) run" where
  "takePhoto_catch r =
     (case outcome r of
        Resolved u \<Rightarrow> r
      | Rejected error \<Rightarrow>
          \<lparr>outcome = (case alert ''Failed to take photo. Please try again.'' of
                        Inl e \<Rightarrow> Rejected e
                      | Inr u \<Rightarrow> Resolved ()),
           trace = trace r @ [ConsoleError ''Error taking photo:'',
                              AlertCall ''Failed to take photo. Please try again.''],
           final = (final r)\<lparr>cameraError := Some ''Failed to take photo. Please try again.''\<rparr>\<rparr>)"

text \<open>The \<^verbatim>\<open>finally\<close> of the outer \<^verbatim>\<open>try\<close>.\<close>

definition takePhoto_finally :: "(unit, cam_state) run \<Rightarrow> (unit, cam_state) run" where
  "takePhoto_finally r = r\<lparr>final := (final r)\<lparr>isCapturing := False\<rparr>\<rparr>"

text \<open>
  The state after the synchronous statements between the guard and the first
  \<^verbatim>\<open>await\<close> of the \<^verbatim>\<open>try\<close>: the error is cleared and the in-flight flag is set. It is
  the state the component renders while the capture waits for the location; the next
  state it renders is this one with the location stored, and then the final state of the
  run (the statements after the last \<^verbatim>\<open>await\<close> run together).
\<close>

definition takePhoto_enter :: "cam_state \<Rightarrow> cam_state" where
  "takePhoto_enter s = s\<lparr>cameraError := None, isCapturing := True\<rparr>"

text \<open>\<^verbatim>\<open>takePhoto\<close> from the re-entrancy guard on.\<close>

definition takePhoto_guarded :: "cam_env \<Rightarrow> cam_state \<Rightarrow> (unit, cam_state) run" where
  "takePhoto_guarded env s =
     (if \<not> cameraRefCurrent env \<or> isCapturing s then
        \<lparr>outcome = Resolved (), trace = [], final = s\<rparr>
      else takePhoto_finally (takePhoto_catch (takePhoto_try env (takePhoto_enter s))))"

definition takePhoto :: "cam_env \<Rightarrow> cam_state \<Rightarrow> (unit, cam_state) run" where
  "takePhoto env s =
     (if \<not> hasPermission env then
        (case requestPermission env of
           Inl e \<Rightarrow> \<lparr>outcome = Rejected e, trace = [CameraRequestPermission], final = s\<rparr>
         | Inr granted \<Rightarrow>
             if \<not> granted then
               \<lparr>outcome = (case alert ''Camera permission is required to take photos'' of
                             Inl e \<Rightarrow> Rejected e
                           | Inr u \<Rightarrow> Resolved ()),
                trace = [CameraRequestPermission,
                         AlertCall ''Camera permission is required to take photos''],
                final = s\<rparr>
             else
               (let r = takePhoto_guarded env s
                in r\<lparr>trace := CameraRequestPermission # trace r\<rparr>))
      else takePhoto_guarded env s)"

definition toggleCameraType :: "cam_state \<Rightarrow> cam_state" where
  "toggleCameraType s =
     s\<lparr>cameraPosition := (if cameraPosition s = Back then Front else Back)\<rparr>"

definition retakePhoto :: "cam_state \<Rightarrow> cam_state" where
  "retakePhoto s = s\<lparr>capturedImage := None\<rparr>"

text \<open>
  Which screen the component renders: the permission message, the preview of the captured
  image, a loading message while no camera device faces the selected way, a message when
  the device has no format, or the camera with the shutter button.
\<close>

datatype screen =
  PermissionScreen | PreviewScreen | LoadingScreen | NoFormatScreen | CameraScreen

text \<open>\<^verbatim>\<open>devices?.find((d) => d.position === cameraPosition)\<close>\<close>

definition device :: "cam_env \<Rightarrow> cam_state \<Rightarrow> CameraDevice option" where
  "device env s = find (\<lambda>d. device_position d = cameraPosition s) (devices env)"

text \<open>
  \<^verbatim>\<open>device?.formats.find(f => f.photoWidth && f.photoHeight) || device?.formats[0]\<close>
\<close>

definition format :: "cam_env \<Rightarrow> cam_state \<Rightarrow> CameraFormat option" where
  "format env s =
     (case device env s of
        None \<Rightarrow> None
      | Some d \<Rightarrow>
          (case find (\<lambda>f. photoWidth f \<noteq> 0 \<and> photoHeight f \<noteq> 0) (device_formats d) of
             Some f \<Rightarrow> Some f
           | None \<Rightarrow> (case device_formats d of [] \<Rightarrow> None | f # fs \<Rightarrow> Some f)))"

definition render :: "cam_env \<Rightarrow> cam_state \<Rightarrow> screen" where
  "render env s =
     (if \<not> hasPermission env then PermissionScreen
      else if capturedImage s \<noteq> None then PreviewScreen
      else if device env s = None then LoadingScreen
      else if format env s = None then NoFormatScreen
      else CameraScreen)"

subsection \<open>Permission gate (\<^verbatim>\<open>usePermissions\<close>)\<close>

datatype PermissionStatus = UNAVAILABLE | BLOCKED | DENIED | GRANTED | LIMITED

text \<open>The state of the hook is its flag \<^verbatim>\<open>permissionsGranted\<close>, initially \<^verbatim>\<open>false\<close>.\<close>

record perm_state =
  permissionsGranted_flag :: bool

text \<open>
  The platform and the answers of the permission library to \<^verbatim>\<open>check\<close> and
  \<^verbatim>\<open>request\<close>: a status, or the message of an error.
\<close>

record perm_env =
  perm_OS :: platformOS
  check :: "permission \<Rightarrow> string + PermissionStatus"
  request :: "permission \<Rightarrow> string + PermissionStatus"

text \<open>\<^verbatim>\<open>Platform.select\<close> with \<^verbatim>\<open>default: undefined\<close>.\<close>

definition platformSelect :: "platformOS \<Rightarrow> 'a \<Rightarrow> 'a \<Rightarrow> 'a option" where
  "platformSelect os a i = (case os of Android \<Rightarrow> Some a | Ios \<Rightarrow> Some i | OtherOS \<Rightarrow> None)"

text \<open>The \<^verbatim>\<open>catch\<close> of \<^verbatim>\<open>requestPermissions\<close>, after the calls \<open>tr\<close>.\<close>

definition requestPermissions_catch :: "effect list \<Rightarrow> perm_state \<Rightarrow> (bool, perm_state) run" where
  "requestPermissions_catch tr s =
     \<lparr>outcome = Resolved False,
      trace = tr @ [ConsoleError ''Error requesting permissions:''],
      final = s\<rparr>"

text \<open>The end of the \<^verbatim>\<open>try\<close> block, once both final statuses are known.\<close>

definition requestPermissions_finish ::
  "effect list \<Rightarrow> PermissionStatus \<Rightarrow> PermissionStatus \<Rightarrow> perm_state \<Rightarrow> (bool, perm_state) run"
where
  "requestPermissions_finish tr finalCameraStatus finalLocationStatus s =
     (let allGranted = (finalCameraStatus = GRANTED \<and> finalLocationStatus = GRANTED)
      in \<lparr>outcome = Resolved allGranted,
          trace = tr @ (if \<not> allGranted then
                          [AlertAlert ''Permissions Required''
                             ''Camera and location permissions are required to use all features of this app.'']
                        else []),
          final = s\<lparr>permissionsGranted_flag := allGranted\<rparr>\<rparr>)"

text \<open>The second request, for the location, and what follows it.\<close>

definition requestPermissions_location ::
  "perm_env \<Rightarrow> permission \<Rightarrow> effect list \<Rightarrow> PermissionStatus \<Rightarrow> PermissionStatus \<Rightarrow>
   perm_state \<Rightarrow> (bool, perm_state) run"
where
  "requestPermissions_location env locationPermission tr finalCameraStatus locationStatus s =
     (if locationStatus \<noteq> GRANTED then
        (case request env locationPermission of
           Inl error \<Rightarrow> requestPermissions_catch (tr @ [PermissionRequest locationPermission]) s
         | Inr finalLocationStatus \<Rightarrow>
             requestPermissions_finish (tr @ [PermissionRequest locationPermission])
               finalCameraStatus finalLocationStatus s)
      else requestPermissions_finish tr finalCameraStatus locationStatus s)"

definition requestPermissions :: "perm_env \<Rightarrow> perm_state \<Rightarrow> (bool, perm_state) run" where
  "requestPermissions env s =
     (case (platformSelect (perm_OS env) ANDROID_CAMERA IOS_CAMERA,
            platformSelect (perm_OS env) ANDROID_ACCESS_FINE_LOCATION IOS_LOCATION_WHEN_IN_USE) of
        (Some cameraPermission, Some locationPermission) \<Rightarrow>
          (case check env cameraPermission of
             Inl error \<Rightarrow> requestPermissions_catch [PermissionCheck cameraPermission] s
           | Inr cameraStatus \<Rightarrow>
               (case check env locationPermission of
                  Inl error \<Rightarrow>
                    requestPermissions_catch
                      [PermissionCheck cameraPermission, PermissionCheck locationPermission] s
                | Inr locationStatus \<Rightarrow>
                    (let tr = [PermissionCheck cameraPermission,
                               PermissionCheck locationPermission]
                     in if cameraStatus \<noteq> GRANTED then
                          (case request env cameraPermission of
                             Inl error \<Rightarrow>
                               requestPermissions_catch
                                 (tr @ [PermissionRequest cameraPermission]) s
                           | Inr finalCameraStatus \<Rightarrow>
                               requestPermissions_location env locationPermission
                                 (tr @ [PermissionRequest cameraPermission])
                                 finalCameraStatus locationStatus s)
                        else
                          requestPermissions_location env locationPermission tr
                            cameraStatus locationStatus s)))
      | _ \<Rightarrow>
          \<lparr>outcome = Resolved False,
           trace = [ConsoleError ''Permissions not defined for this platform''],
           final = s\<rparr>)"

subsection \<open>Observations and example inputs of the gallery\<close>

text \<open>
  An entry of the photo library carries a location field when \<^verbatim>\<open>node.location\<close> is an
  object.
\<close>

definition hasLocationField :: "PhotoNode \<Rightarrow> bool" where
  "hasLocationField node = (node_location node \<noteq> None)"

text \<open>
  Three entries as the photo library may return them: one without a location field and two
  with coordinates; and a library of three entries of which the second was taken on the
  equator. \<open>failing_map_env\<close> is a library whose query throws.
\<close>

definition example_node :: "string \<Rightarrow> NodeLocation option \<Rightarrow> PhotoNode" where
  "example_node u l =
     \<lparr>node_image = \<lparr>image_uri = u, image_width = 4000, image_height = 3000\<rparr>,
      node_timestamp = 1700000000000, node_location = l\<rparr>"

definition example_edges :: "PhotoNode list" where
  "example_edges =
     [example_node ''ph://1'' None,
      example_node ''ph://2'' (Some \<lparr>loc_latitude = Some (Num 12.97), loc_longitude = Some (Num 77.59)\<rparr>),
      example_node ''ph://3'' (Some \<lparr>loc_latitude = Some (Num 48.85), loc_longitude = Some (Num 2.35)\<rparr>)]"

definition example_map_env :: map_env where
  "example_map_env =
     \<lparr>permissionsGranted = True, getPhotos = (\<lambda>q. Inr example_edges),
      dateNow = (\<lambda>k. 1800000000000 + int k)\<rparr>"

definition equator_edges :: "PhotoNode list" where
  "equator_edges =
     [example_node ''ph://1'' None,
      example_node ''ph://2'' (Some \<lparr>loc_latitude = Some (Num 0), loc_longitude = Some (Num 32.58)\<rparr>),
      example_node ''ph://3'' (Some \<lparr>loc_latitude = Some (Num 12.97), loc_longitude = Some (Num 77.59)\<rparr>)]"

definition equator_map_env :: map_env where
  "equator_map_env =
     \<lparr>permissionsGranted = True, getPhotos = (\<lambda>q. Inr equator_edges),
      dateNow = (\<lambda>k. 1800000000000 + int k)\<rparr>"

definition failing_map_env :: map_env where
  "failing_map_env =
     \<lparr>permissionsGranted = True, getPhotos = (\<lambda>q. Inl ''Permission denied''),
      dateNow = (\<lambda>k. 1800000000000 + int k)\<rparr>"

definition example_photo :: PhotoData where
  "example_photo =
     \<lparr>photo_id = ''ph://0'', uri = ''ph://0'',
      location = \<lparr>latitude = Num 51.5, longitude = Num 0.12, timestamp = 1790000000000\<rparr>,
      dimensions = \<lparr>width = 4000, height = 3000\<rparr>\<rparr>"

definition example_map_state :: map_state where
  "example_map_state =
     \<lparr>photos = [example_photo], selectedPhoto = None,
      region = \<lparr>region_latitude = Num 51.5, region_longitude = Num 0.12,
                latitudeDelta = 0.02, longitudeDelta = 0.02\<rparr>\<rparr>"

subsection \<open>Observations and example inputs of the capture workflow\<close>

text \<open>
  The saves a run has issued, as pairs of path and album, and those of them that the photo
  library has stored.
\<close>

fun saveCalls :: "effect list \<Rightarrow> (string \<times> string) list" where
  "saveCalls [] = []"
| "saveCalls (CameraRollSave p a # tr) = (p, a) # saveCalls tr"
| "saveCalls (e # tr) = saveCalls tr"

definition persistedRecords :: "cam_env \<Rightarrow> effect list \<Rightarrow> (string \<times> string) list" where
  "persistedRecords env tr = filter (\<lambda>(p, a). cameraRollSave env p a = Inr ()) (saveCalls tr)"

text \<open>
  The location that stands for a failed fix, and the message of a failed capture.
\<close>

definition sentinelLocation :: "cam_env \<Rightarrow> LocationData" where
  "sentinelLocation env =
     \<lparr>latitude = Num 0, longitude = Num 0, timestamp = cam_dateNow env,
      date = toLocaleString env (newDate env)\<rparr>"

definition failureMessage :: string where
  "failureMessage = ''Failed to take photo. Please try again.''"

text \<open>
  A phone on which the location request times out, the camera returns a file and the save
  succeeds; the same phone with a failing save, and with a camera that returns an empty
  path; the state after a first capture on it; and a second capture with a fix.
\<close>

definition example_cam_env :: cam_env where
  "example_cam_env =
     \<lparr>hasPermission = True, requestPermission = Inr True, cameraRefCurrent = True,
      getCurrentPosition = Inl ''Location request timed out.'',
      cam_dateNow = 1800000000000, newDate = 1800000000001,
      toLocaleString = (\<lambda>t. if t = 1800000000001 then ''1/15/2027, 8:00:00 AM'' else ''''),
      cameraTakePhoto = Inr (Some \<lparr>path = ''/cache/IMG_1.jpg''\<rparr>),
      platform_OS = Android,
      cameraRollSave = (\<lambda>p a. Inr ()),
      devices = [\<lparr>device_position = Back,
                  device_formats = [\<lparr>photoWidth = 4000, photoHeight = 3000\<rparr>]\<rparr>]\<rparr>"

definition save_failing_cam_env :: cam_env where
  "save_failing_cam_env =
     example_cam_env\<lparr>cameraRollSave := (\<lambda>p a. Inl ''Could not save the file.'')\<rparr>"

definition empty_path_cam_env :: cam_env where
  "empty_path_cam_env = example_cam_env\<lparr>cameraTakePhoto := Inr (Some \<lparr>path = ''''\<rparr>)\<rparr>"

definition preview_cam_state :: cam_state where
  "preview_cam_state = final (takePhoto example_cam_env initial_cam_state)"

definition second_cam_env :: cam_env where
  "second_cam_env =
     example_cam_env
       \<lparr>getCurrentPosition :=
          Inr \<lparr>coords_latitude = Num 12.97, coords_longitude = Num 77.59,
               position_timestamp = 1800000060000\<rparr>,
        toLocaleString := (\<lambda>t. ''1/15/2027, 8:01:00 AM''),
        cameraTakePhoto := Inr (Some \<lparr>path = ''/cache/IMG_2.jpg''\<rparr>)\<rparr>"

subsection \<open>Observations and example inputs of the permission gate\<close>

text \<open>
  The final status of a capability in the words of the specification of the gate: query
  the current status; if it is not already granted, issue a request; collect the final
  status. There is none when a call fails.
\<close>

definition finalStatus :: "perm_env \<Rightarrow> permission \<Rightarrow> PermissionStatus option" where
  "finalStatus env p =
     (case check env p of
        Inl e \<Rightarrow> None
      | Inr status \<Rightarrow>
          if status = GRANTED then Some status
          else (case request env p of Inl e \<Rightarrow> None | Inr status' \<Rightarrow> Some status'))"

text \<open>
  The dialog shown when not everything is granted.
\<close>

definition permissionNotice :: effect where
  "permissionNotice =
     AlertAlert ''Permissions Required''
       ''Camera and location permissions are required to use all features of this app.''"

text \<open>
  An Android phone on which the camera is granted and the location is denied, also when
  asked again.
\<close>

definition location_denied_env :: perm_env where
  "location_denied_env =
     \<lparr>perm_OS = Android,
      check = (\<lambda>p. if p = ANDROID_CAMERA then Inr GRANTED else Inr DENIED),
      request = (\<lambda>p. Inr DENIED)\<rparr>"

text \<open>
  The same phone when the request for the location fails instead of answering.
\<close>

definition request_failing_env :: perm_env where
  "request_failing_env =
     \<lparr>perm_OS = Android,
      check = (\<lambda>p. if p = ANDROID_CAMERA then Inr GRANTED else Inr DENIED),
      request = (\<lambda>p. Inl ''Activity is not available'')\<rparr>"

section \<open>Properties of the gallery reconstruction\<close>

subsection \<open>The map callback and the filter\<close>

lemma strict_neq_zero_or_zero: "strict_neq_zero (or_zero x) = (or_zero x \<noteq> Num 0)"
  by (cases x; cases "the x") (auto simp: or_zero_def)

lemma or_zero_nonzero_iff: "(or_zero x \<noteq> Num 0) = (\<exists>r. x = Some (Num r) \<and> r \<noteq> 0)"
  by (cases x; cases "the x") (auto simp: or_zero_def)

lemma length_mapEdges: "length (mapEdges clock edges) = length edges"
  by (simp add: mapEdges_def)

lemma nth_mapEdges:
  "k < length edges \<Longrightarrow> mapEdges clock edges ! k = processNode (clock k) (edges ! k)"
  by (simp add: mapEdges_def)

lemma in_mapEdges:
  "p \<in> set (mapEdges clock edges) \<longleftrightarrow> (\<exists>k<length edges. p = processNode (clock k) (edges ! k))"
  by (auto simp: in_set_conv_nth length_mapEdges nth_mapEdges)

lemma hasCoordinates_processNode:
  "hasCoordinates (processNode now node) =
     (latitude (location (processNode now node)) \<noteq> Num 0 \<and>
      longitude (location (processNode now node)) \<noteq> Num 0)"
  by (simp add: hasCoordinates_def processNode_def Let_def strict_neq_zero_or_zero)

lemma hasCoordinates_processNode_raw:
  "hasCoordinates (processNode now node) =
     (\<exists>l a b. node_location node = Some l \<and> loc_latitude l = Some (Num a) \<and> a \<noteq> 0 \<and>
              loc_longitude l = Some (Num b) \<and> b \<noteq> 0)"
  by (cases "node_location node")
     (auto simp: hasCoordinates_def processNode_def Let_def strict_neq_zero_or_zero or_zero_nonzero_iff)

lemma hasCoordinates_mapped:
  "p \<in> set (mapEdges clock edges) \<Longrightarrow>
   hasCoordinates p = (latitude (location p) \<noteq> Num 0 \<and> longitude (location p) \<noteq> Num 0)"
  by (auto simp: in_mapEdges hasCoordinates_processNode)

lemma hasCoordinates_nonzero:
  "hasCoordinates p \<Longrightarrow> latitude (location p) \<noteq> Num 0 \<and> longitude (location p) \<noteq> Num 0"
  by (auto simp: hasCoordinates_def)

lemma processNode_fields:
  "photo_id (processNode now node) = image_uri (node_image node)"
  "uri (processNode now node) = image_uri (node_image node)"
  "timestamp (location (processNode now node)) = now"
  "latitude (location (processNode now node)) =
     or_zero (case node_location node of None \<Rightarrow> None | Some l \<Rightarrow> loc_latitude l)"
  "longitude (location (processNode now node)) =
     or_zero (case node_location node of None \<Rightarrow> None | Some l \<Rightarrow> loc_longitude l)"
  "width (dimensions (processNode now node)) = image_width (node_image node)"
  "height (dimensions (processNode now node)) = image_height (node_image node)"
  by (simp_all add: processNode_def Let_def split: option.splits)

lemma length_processPhotos: "length (processPhotos clock edges) \<le> length edges"
  using length_filter_le [of hasCoordinates "mapEdges clock edges"]
  by (simp add: processPhotos_def length_mapEdges)

lemma mapEdges_three:
  "mapEdges clock [x, y, z] =
     [processNode (clock 0) x, processNode (clock 1) y, processNode (clock 2) z]"
  by (simp add: mapEdges_def upt_rec numeral_2_eq_2)

lemma loadPhotos_ok_photos:
  "permissionsGranted env \<Longrightarrow> getPhotos env photosQuery = Inr edges \<Longrightarrow>
   photos (final (loadPhotos env s)) = processPhotos (dateNow env) edges"
  by (simp add: loadPhotos_def Let_def split: list.splits)

lemma loadPhotos_photos_cases:
  "photos (final (loadPhotos env s)) = photos s \<or>
   (\<exists>edges. photos (final (loadPhotos env s)) = processPhotos (dateNow env) edges)"
proof (cases "permissionsGranted env")
  case False
  then show ?thesis by (simp add: loadPhotos_def)
next
  case True
  show ?thesis
  proof (cases "getPhotos env photosQuery")
    case (Inl error)
    with True show ?thesis by (simp add: loadPhotos_def)
  next
    case (Inr edges)
    with True show ?thesis using loadPhotos_ok_photos [of env edges s] by blast
  qed
qed

lemma loadPhotos_query_iff:
  "CameraRollGetPhotos q \<in> set (trace (loadPhotos env s)) \<longleftrightarrow>
     permissionsGranted env \<and> q = photosQuery"
  by (cases "getPhotos env photosQuery") (auto simp: loadPhotos_def Let_def)

lemma loadPhotos_region_first:
  "permissionsGranted env \<Longrightarrow> getPhotos env photosQuery = Inr edges \<Longrightarrow>
   processPhotos (dateNow env) edges = p # ps \<Longrightarrow>
   final (loadPhotos env s) =
     s\<lparr>photos := p # ps,
       region := \<lparr>region_latitude = latitude (location p),
                  region_longitude = longitude (location p),
                  latitudeDelta = 0.02, longitudeDelta = 0.02\<rparr>\<rparr>"
  by (simp add: loadPhotos_def Let_def)

lemma processPhotos_scenario:
  assumes "length edges = 3" and "filter hasLocationField edges = [n1, n2]"
    and "node_location n1 = Some \<lparr>loc_latitude = Some (Num a1), loc_longitude = Some (Num b1)\<rparr>"
    and "a1 \<noteq> 0" and "b1 \<noteq> 0"
    and "node_location n2 = Some \<lparr>loc_latitude = Some (Num a2), loc_longitude = Some (Num b2)\<rparr>"
    and "a2 \<noteq> 0" and "b2 \<noteq> 0"
  shows "\<exists>t1 t2. processPhotos clock edges = [processNode t1 n1, processNode t2 n2]"
proof -
  from assms(1) obtain x y z where e: "edges = [x, y, z]"
    by (cases edges; cases "tl edges"; cases "tl (tl edges)") auto
  have c1: "hasCoordinates (processNode t n1)" for t
    using assms(3-5) by (simp add: hasCoordinates_processNode_raw)
  have c2: "hasCoordinates (processNode t n2)" for t
    using assms(6-8) by (simp add: hasCoordinates_processNode_raw)
  have c0: "\<not> hasLocationField n \<Longrightarrow> \<not> hasCoordinates (processNode t n)" for t n
    by (simp add: hasCoordinates_processNode_raw hasLocationField_def)
  from assms(2) show ?thesis
    unfolding e processPhotos_def mapEdges_three
    by (auto simp: c1 c2 c0 split: if_splits)
qed

lemma example_processPhotos:
  "processPhotos (dateNow example_map_env) example_edges =
     [processNode 1800000000001 (example_edges ! 1), processNode 1800000000002 (example_edges ! 2)]"
  by (simp add: example_edges_def mapEdges_three processPhotos_def example_map_env_def
      hasCoordinates_def processNode_def or_zero_def example_node_def)

subsection \<open>Claims about \<^verbatim>\<open>loadPhotos\<close>\<close>

text \<open>
  Claim C2. When \<^verbatim>\<open>loadPhotos\<close> has permission and the query answers with \<open>edges\<close>, a
  photo is in the list it stores if and only if it is one of the mapped entries and both
  its latitude and its longitude are different from \<open>0\<close>; in terms of the entries, the photo
  of entry \<open>k\<close> is in the list if and only if the entry has a location whose latitude and
  longitude are both non-zero numbers. Whatever the library answers, a list without an
  entry that has a zero coordinate stays one: no photo at \<open>(0, 0)\<close> is ever in the list.
\<close>

theorem loadPhotos_included_iff_nonzero:
  "(permissionsGranted env \<and> getPhotos env photosQuery = Inr edges \<longrightarrow>
      (\<forall>p. p \<in> set (photos (final (loadPhotos env s))) \<longleftrightarrow>
             p \<in> set (mapEdges (dateNow env) edges) \<and>
             latitude (location p) \<noteq> Num 0 \<and> longitude (location p) \<noteq> Num 0) \<and>
      (\<forall>k<length edges.
         processNode (dateNow env k) (edges ! k) \<in> set (photos (final (loadPhotos env s))) \<longleftrightarrow>
         (\<exists>l a b. node_location (edges ! k) = Some l \<and>
                  loc_latitude l = Some (Num a) \<and> a \<noteq> 0 \<and>
                  loc_longitude l = Some (Num b) \<and> b \<noteq> 0))) \<and>
   ((\<forall>p \<in> set (photos s). latitude (location p) \<noteq> Num 0 \<and> longitude (location p) \<noteq> Num 0) \<longrightarrow>
    (\<forall>p \<in> set (photos (final (loadPhotos env s))).
       latitude (location p) \<noteq> Num 0 \<and> longitude (location p) \<noteq> Num 0))"
proof (intro conjI impI allI)
  fix p
  assume ok: "permissionsGranted env \<and> getPhotos env photosQuery = Inr edges"
  then have ph: "photos (final (loadPhotos env s)) = processPhotos (dateNow env) edges"
    by (simp add: loadPhotos_ok_photos)
  show "p \<in> set (photos (final (loadPhotos env s))) \<longleftrightarrow>
        p \<in> set (mapEdges (dateNow env) edges) \<and>
        latitude (location p) \<noteq> Num 0 \<and> longitude (location p) \<noteq> Num 0"
    unfolding ph processPhotos_def using hasCoordinates_mapped [of p "dateNow env" edges]
    by auto
next
  fix k
  assume ok: "permissionsGranted env \<and> getPhotos env photosQuery = Inr edges"
    and k: "k < length edges"
  from ok have ph: "photos (final (loadPhotos env s)) = processPhotos (dateNow env) edges"
    by (simp add: loadPhotos_ok_photos)
  from k have "processNode (dateNow env k) (edges ! k) \<in> set (mapEdges (dateNow env) edges)"
    by (auto simp: in_mapEdges)
  then show "processNode (dateNow env k) (edges ! k) \<in> set (photos (final (loadPhotos env s))) \<longleftrightarrow>
         (\<exists>l a b. node_location (edges ! k) = Some l \<and>
                  loc_latitude l = Some (Num a) \<and> a \<noteq> 0 \<and>
                  loc_longitude l = Some (Num b) \<and> b \<noteq> 0)"
    unfolding ph processPhotos_def by (simp add: hasCoordinates_processNode_raw)
next
  assume inv: "\<forall>p \<in> set (photos s). latitude (location p) \<noteq> Num 0 \<and> longitude (location p) \<noteq> Num 0"
  show "\<forall>p \<in> set (photos (final (loadPhotos env s))).
       latitude (location p) \<noteq> Num 0 \<and> longitude (location p) \<noteq> Num 0"
    using loadPhotos_photos_cases [of env s] inv
    by (auto simp: processPhotos_def dest: hasCoordinates_nonzero)
qed

theorem loadPhotos_included_iff_nonzero_witness:
  "permissionsGranted example_map_env \<and>
   getPhotos example_map_env photosQuery = Inr example_edges \<and>
   (1::nat) < length example_edges \<and>
   photos example_map_state = [example_photo] \<and>
   latitude (location example_photo) \<noteq> Num 0 \<and> longitude (location example_photo) \<noteq> Num 0 \<and>
   processNode (dateNow example_map_env 1) (example_edges ! 1)
     \<in> set (photos (final (loadPhotos example_map_env example_map_state))) \<and>
   processNode (dateNow example_map_env 0) (example_edges ! 0)
     \<notin> set (photos (final (loadPhotos example_map_env example_map_state)))"
proof -
  have h: "permissionsGranted example_map_env \<and>
           getPhotos example_map_env photosQuery = Inr example_edges"
    by (simp add: example_map_env_def)
  have l: "(1::nat) < length example_edges" "(0::nat) < length example_edges"
    by (simp_all add: example_edges_def)
  note t = loadPhotos_included_iff_nonzero [of example_map_env example_edges example_map_state]
  from t h l(1) have
    "processNode (dateNow example_map_env 1) (example_edges ! 1)
       \<in> set (photos (final (loadPhotos example_map_env example_map_state))) \<longleftrightarrow>
     (\<exists>l a b. node_location (example_edges ! 1) = Some l \<and>
                  loc_latitude l = Some (Num a) \<and> a \<noteq> 0 \<and>
                  loc_longitude l = Some (Num b) \<and> b \<noteq> 0)"
    by blast
  moreover have "\<exists>l a b. node_location (example_edges ! 1) = Some l \<and>
                  loc_latitude l = Some (Num a) \<and> a \<noteq> 0 \<and>
                  loc_longitude l = Some (Num b) \<and> b \<noteq> 0"
    by (rule exI [of _ "\<lparr>loc_latitude = Some (Num 12.97), loc_longitude = Some (Num 77.59)\<rparr>"],
        rule exI [of _ "12.97"], rule exI [of _ "77.59"])
       (simp add: example_edges_def example_node_def)
  ultimately have a: "processNode (dateNow example_map_env 1) (example_edges ! 1)
       \<in> set (photos (final (loadPhotos example_map_env example_map_state)))"
    by blast
  from t h l(2) have
    "processNode (dateNow example_map_env 0) (example_edges ! 0)
       \<in> set (photos (final (loadPhotos example_map_env example_map_state))) \<longleftrightarrow>
     (\<exists>l a b. node_location (example_edges ! 0) = Some l \<and>
                  loc_latitude l = Some (Num a) \<and> a \<noteq> 0 \<and>
                  loc_longitude l = Some (Num b) \<and> b \<noteq> 0)"
    by blast
  then have b: "processNode (dateNow example_map_env 0) (example_edges ! 0)
       \<notin> set (photos (final (loadPhotos example_map_env example_map_state)))"
    by (simp add: example_edges_def example_node_def)
  have c: "photos example_map_state = [example_photo] \<and>
   latitude (location example_photo) \<noteq> Num 0 \<and> longitude (location example_photo) \<noteq> Num 0"
    by (simp add: example_map_state_def example_photo_def)
  from h l(1) a b c show ?thesis by blast
qed

text \<open>
  Claim C7. \<^verbatim>\<open>loadPhotos\<close> issues a query exactly when it has permission, and the query asks
  for the first 50 photos of the album \<open>GeoMapCamera\<close> with location and size; when the
  library answers with at most 50 entries the list has at most 50 photos. Entry \<open>k\<close> is
  mapped by \<open>processNode\<close>: id and uri are the uri of the stored image, latitude and
  longitude are \<open>0\<close> when the entry has no location (or the field is missing or not a
  number), the timestamp is the clock at the time of the mapping, and the time the photo
  was taken has no influence on the result.
\<close>

theorem loadPhotos_query_and_mapping:
  "(CameraRollGetPhotos q \<in> set (trace (loadPhotos env s)) \<longleftrightarrow>
      permissionsGranted env \<and>
      q = \<lparr>first = 50, assetType = ''Photos'', groupName = ''GeoMapCamera'',
           include_fields = [''location'', ''imageSize'', ''filename'']\<rparr>) \<and>
   (permissionsGranted env \<and> getPhotos env photosQuery = Inr edges \<longrightarrow>
      photos (final (loadPhotos env s)) = filter hasCoordinates (mapEdges (dateNow env) edges) \<and>
      (length edges \<le> 50 \<longrightarrow> length (photos (final (loadPhotos env s))) \<le> 50) \<and>
      (\<forall>k<length edges.
         mapEdges (dateNow env) edges ! k = processNode (dateNow env k) (edges ! k))) \<and>
   photo_id (processNode now node) = image_uri (node_image node) \<and>
   uri (processNode now node) = image_uri (node_image node) \<and>
   (node_location node = None \<longrightarrow>
      latitude (location (processNode now node)) = Num 0 \<and>
      longitude (location (processNode now node)) = Num 0) \<and>
   (node_location node = Some l \<longrightarrow>
      latitude (location (processNode now node)) =
        (case loc_latitude l of None \<Rightarrow> Num 0 | Some NaN \<Rightarrow> Num 0 | Some (Num a) \<Rightarrow> Num a) \<and>
      longitude (location (processNode now node)) =
        (case loc_longitude l of None \<Rightarrow> Num 0 | Some NaN \<Rightarrow> Num 0 | Some (Num b) \<Rightarrow> Num b)) \<and>
   timestamp (location (processNode now node)) = now \<and>
   processNode now (node\<lparr>node_timestamp := t\<rparr>) = processNode now node"
proof -
  have q: "CameraRollGetPhotos q \<in> set (trace (loadPhotos env s)) \<longleftrightarrow>
      permissionsGranted env \<and>
      q = \<lparr>first = 50, assetType = ''Photos'', groupName = ''GeoMapCamera'',
           include_fields = [''location'', ''imageSize'', ''filename'']\<rparr>"
    by (simp add: loadPhotos_query_iff photosQuery_def)
  have m: "permissionsGranted env \<and> getPhotos env photosQuery = Inr edges \<longrightarrow>
      photos (final (loadPhotos env s)) = filter hasCoordinates (mapEdges (dateNow env) edges) \<and>
      (length edges \<le> 50 \<longrightarrow> length (photos (final (loadPhotos env s))) \<le> 50) \<and>
      (\<forall>k<length edges.
         mapEdges (dateNow env) edges ! k = processNode (dateNow env k) (edges ! k))"
    using length_processPhotos [of "dateNow env" edges]
    by (auto simp: loadPhotos_ok_photos processPhotos_def nth_mapEdges)
  have n: "node_location node = None \<longrightarrow>
      latitude (location (processNode now node)) = Num 0 \<and>
      longitude (location (processNode now node)) = Num 0"
    by (simp add: processNode_fields or_zero_def)
  have l: "node_location node = Some l \<longrightarrow>
      latitude (location (processNode now node)) =
        (case loc_latitude l of None \<Rightarrow> Num 0 | Some NaN \<Rightarrow> Num 0 | Some (Num a) \<Rightarrow> Num a) \<and>
      longitude (location (processNode now node)) =
        (case loc_longitude l of None \<Rightarrow> Num 0 | Some NaN \<Rightarrow> Num 0 | Some (Num b) \<Rightarrow> Num b)"
    by (auto simp: processNode_fields or_zero_def split: option.splits number.splits)
  have t: "processNode now (node\<lparr>node_timestamp := t\<rparr>) = processNode now node"
    by (simp add: processNode_def)
  have f: "photo_id (processNode now node) = image_uri (node_image node) \<and>
           uri (processNode now node) = image_uri (node_image node) \<and>
           timestamp (location (processNode now node)) = now"
    by (simp add: processNode_fields)
  from q m n l t f show ?thesis by blast
qed

theorem loadPhotos_query_and_mapping_witness:
  "permissionsGranted example_map_env \<and>
   getPhotos example_map_env photosQuery = Inr example_edges \<and>
   length example_edges \<le> 50 \<and> (2::nat) < length example_edges \<and>
   node_location (example_edges ! 0) = None \<and>
   node_location (example_edges ! 2) =
     Some \<lparr>loc_latitude = Some (Num 48.85), loc_longitude = Some (Num 2.35)\<rparr> \<and>
   CameraRollGetPhotos photosQuery
     \<in> set (trace (loadPhotos example_map_env example_map_state)) \<and>
   length (photos (final (loadPhotos example_map_env example_map_state))) \<le> 50 \<and>
   location (processNode 1800000000000 (example_edges ! 0)) =
     \<lparr>latitude = Num 0, longitude = Num 0, timestamp = 1800000000000\<rparr> \<and>
   location (mapEdges (dateNow example_map_env) example_edges ! 2) =
     \<lparr>latitude = Num 48.85, longitude = Num 2.35, timestamp = 1800000000002\<rparr>"
proof -
  have h: "permissionsGranted example_map_env \<and>
           getPhotos example_map_env photosQuery = Inr example_edges"
    by (simp add: example_map_env_def)
  have l: "length example_edges \<le> 50" "(2::nat) < length example_edges"
    by (simp_all add: example_edges_def)
  have n0: "node_location (example_edges ! 0) = None"
    by (simp add: example_edges_def example_node_def)
  have n2: "node_location (example_edges ! 2) =
     Some \<lparr>loc_latitude = Some (Num 48.85), loc_longitude = Some (Num 2.35)\<rparr>"
    by (simp add: example_edges_def example_node_def)
  note t0 = loadPhotos_query_and_mapping
    [of photosQuery example_map_env example_map_state example_edges 1800000000000
        "example_edges ! 0" _ 0]
  note t2 = loadPhotos_query_and_mapping
    [of photosQuery example_map_env example_map_state example_edges "dateNow example_map_env 2"
        "example_edges ! 2"
        "\<lparr>loc_latitude = Some (Num 48.85), loc_longitude = Some (Num 2.35)\<rparr>" 0]
  from t0 h have q: "CameraRollGetPhotos photosQuery
     \<in> set (trace (loadPhotos example_map_env example_map_state))"
    by (simp add: photosQuery_def)
  from t0 h l(1) have b: "length (photos (final (loadPhotos example_map_env example_map_state))) \<le> 50"
    by blast
  from t0 n0 have
    "latitude (location (processNode 1800000000000 (example_edges ! 0))) = Num 0 \<and>
     longitude (location (processNode 1800000000000 (example_edges ! 0))) = Num 0 \<and>
     timestamp (location (processNode 1800000000000 (example_edges ! 0))) = 1800000000000"
    by blast
  then have p0: "location (processNode 1800000000000 (example_edges ! 0)) =
     \<lparr>latitude = Num 0, longitude = Num 0, timestamp = 1800000000000\<rparr>"
    by (cases "location (processNode 1800000000000 (example_edges ! 0))") simp
  from t2 h l(2) have
    "mapEdges (dateNow example_map_env) example_edges ! 2 =
       processNode (dateNow example_map_env 2) (example_edges ! 2)"
    by blast
  moreover from t2 n2 have
    "latitude (location (processNode (dateNow example_map_env 2) (example_edges ! 2))) = Num 48.85 \<and>
     longitude (location (processNode (dateNow example_map_env 2) (example_edges ! 2))) = Num 2.35 \<and>
     timestamp (location (processNode (dateNow example_map_env 2) (example_edges ! 2))) =
       dateNow example_map_env 2"
    by simp
  ultimately have p2: "location (mapEdges (dateNow example_map_env) example_edges ! 2) =
     \<lparr>latitude = Num 48.85, longitude = Num 2.35, timestamp = 1800000000002\<rparr>"
    by (cases "location (mapEdges (dateNow example_map_env) example_edges ! 2)")
       (simp add: example_map_env_def)
  from h l n0 n2 q b p0 p2 show ?thesis by blast
qed

text \<open>
  Claim C8, amended. When the filtered list is not empty the region is set to the
  coordinates of its first photo with deltas \<open>0.02\<close>; pressing a thumbnail selects the
  photo and sets the region to its coordinates with deltas \<open>0.005\<close>. When the query returns
  three entries, exactly two of them carry a location field, and both of these have a
  non-zero latitude and a non-zero longitude, the list has length 2 and the region is
  centred on the first of the two.
\<close>

theorem loadPhotos_recenters_first_entry:
  "(permissionsGranted env \<and> getPhotos env photosQuery = Inr edges \<and>
    processPhotos (dateNow env) edges = p # ps \<longrightarrow>
      photos (final (loadPhotos env s)) = p # ps \<and>
      region (final (loadPhotos env s)) =
        \<lparr>region_latitude = latitude (location p), region_longitude = longitude (location p),
         latitudeDelta = 0.02, longitudeDelta = 0.02\<rparr>) \<and>
   selectedPhoto (thumbnailPress item s) = Some item \<and>
   region (thumbnailPress item s) =
     \<lparr>region_latitude = latitude (location item), region_longitude = longitude (location item),
      latitudeDelta = 0.005, longitudeDelta = 0.005\<rparr> \<and>
   (permissionsGranted env \<and> getPhotos env photosQuery = Inr edges \<and>
    length edges = 3 \<and> filter hasLocationField edges = [n1, n2] \<and>
    node_location n1 = Some \<lparr>loc_latitude = Some (Num a1), loc_longitude = Some (Num b1)\<rparr> \<and>
    a1 \<noteq> 0 \<and> b1 \<noteq> 0 \<and>
    node_location n2 = Some \<lparr>loc_latitude = Some (Num a2), loc_longitude = Some (Num b2)\<rparr> \<and>
    a2 \<noteq> 0 \<and> b2 \<noteq> 0 \<longrightarrow>
      length (photos (final (loadPhotos env s))) = 2 \<and>
      map uri (photos (final (loadPhotos env s))) =
        [image_uri (node_image n1), image_uri (node_image n2)] \<and>
      region (final (loadPhotos env s)) =
        \<lparr>region_latitude = Num a1, region_longitude = Num b1,
         latitudeDelta = 0.02, longitudeDelta = 0.02\<rparr>)"
proof (intro conjI impI)
  assume a: "permissionsGranted env \<and> getPhotos env photosQuery = Inr edges \<and>
    processPhotos (dateNow env) edges = p # ps"
  then have f: "final (loadPhotos env s) =
     s\<lparr>photos := p # ps,
       region := \<lparr>region_latitude = latitude (location p),
                  region_longitude = longitude (location p),
                  latitudeDelta = 0.02, longitudeDelta = 0.02\<rparr>\<rparr>"
    by (simp add: loadPhotos_region_first)
  show "photos (final (loadPhotos env s)) = p # ps" by (simp add: f)
  show "region (final (loadPhotos env s)) =
        \<lparr>region_latitude = latitude (location p), region_longitude = longitude (location p),
         latitudeDelta = 0.02, longitudeDelta = 0.02\<rparr>" by (simp add: f)
next
  show "selectedPhoto (thumbnailPress item s) = Some item"
    by (simp add: thumbnailPress_def)
  show "region (thumbnailPress item s) =
     \<lparr>region_latitude = latitude (location item), region_longitude = longitude (location item),
      latitudeDelta = 0.005, longitudeDelta = 0.005\<rparr>"
    by (simp add: thumbnailPress_def)
next
  assume a: "permissionsGranted env \<and> getPhotos env photosQuery = Inr edges \<and>
    length edges = 3 \<and> filter hasLocationField edges = [n1, n2] \<and>
    node_location n1 = Some \<lparr>loc_latitude = Some (Num a1), loc_longitude = Some (Num b1)\<rparr> \<and>
    a1 \<noteq> 0 \<and> b1 \<noteq> 0 \<and>
    node_location n2 = Some \<lparr>loc_latitude = Some (Num a2), loc_longitude = Some (Num b2)\<rparr> \<and>
    a2 \<noteq> 0 \<and> b2 \<noteq> 0"
  then obtain t1 t2 where
    pp: "processPhotos (dateNow env) edges = [processNode t1 n1, processNode t2 n2]"
    using processPhotos_scenario [of edges n1 n2 a1 b1 a2 b2 "dateNow env"] by blast
  with a have f: "final (loadPhotos env s) =
     s\<lparr>photos := [processNode t1 n1, processNode t2 n2],
       region := \<lparr>region_latitude = latitude (location (processNode t1 n1)),
                  region_longitude = longitude (location (processNode t1 n1)),
                  latitudeDelta = 0.02, longitudeDelta = 0.02\<rparr>\<rparr>"
    by (simp add: loadPhotos_region_first)
  show "length (photos (final (loadPhotos env s))) = 2" by (simp add: f)
  show "map uri (photos (final (loadPhotos env s))) =
        [image_uri (node_image n1), image_uri (node_image n2)]"
    by (simp add: f processNode_fields)
  from a show "region (final (loadPhotos env s)) =
        \<lparr>region_latitude = Num a1, region_longitude = Num b1,
         latitudeDelta = 0.02, longitudeDelta = 0.02\<rparr>"
    by (simp add: f processNode_fields or_zero_def)
qed

theorem loadPhotos_recenters_first_entry_witness:
  "permissionsGranted example_map_env \<and>
   getPhotos example_map_env photosQuery = Inr example_edges \<and>
   processPhotos (dateNow example_map_env) example_edges =
     [processNode 1800000000001 (example_edges ! 1),
      processNode 1800000000002 (example_edges ! 2)] \<and>
   photos (final (loadPhotos example_map_env initial_map_state)) =
     [processNode 1800000000001 (example_edges ! 1),
      processNode 1800000000002 (example_edges ! 2)] \<and>
   length example_edges = 3 \<and>
   filter hasLocationField example_edges = [example_edges ! 1, example_edges ! 2] \<and>
   length (photos (final (loadPhotos example_map_env initial_map_state))) = 2 \<and>
   map uri (photos (final (loadPhotos example_map_env initial_map_state))) =
     [''ph://2'', ''ph://3''] \<and>
   region (final (loadPhotos example_map_env initial_map_state)) =
     \<lparr>region_latitude = Num 12.97, region_longitude = Num 77.59,
      latitudeDelta = 0.02, longitudeDelta = 0.02\<rparr>"
proof -
  have h: "permissionsGranted example_map_env \<and>
           getPhotos example_map_env photosQuery = Inr example_edges"
    by (simp add: example_map_env_def)
  have l: "length example_edges = 3 \<and>
           filter hasLocationField example_edges = [example_edges ! 1, example_edges ! 2]"
    by (simp add: example_edges_def example_node_def hasLocationField_def)
  have n: "node_location (example_edges ! 1) =
             Some \<lparr>loc_latitude = Some (Num 12.97), loc_longitude = Some (Num 77.59)\<rparr> \<and>
           (12.97::real) \<noteq> 0 \<and> (77.59::real) \<noteq> 0 \<and>
           node_location (example_edges ! 2) =
             Some \<lparr>loc_latitude = Some (Num 48.85), loc_longitude = Some (Num 2.35)\<rparr> \<and>
           (48.85::real) \<noteq> 0 \<and> (2.35::real) \<noteq> 0"
    by (simp add: example_edges_def example_node_def)
  have u: "image_uri (node_image (example_edges ! 1)) = ''ph://2'' \<and>
           image_uri (node_image (example_edges ! 2)) = ''ph://3''"
    by (simp add: example_edges_def example_node_def)
  note t = loadPhotos_recenters_first_entry
    [of example_map_env example_edges
        "processNode 1800000000001 (example_edges ! 1)"
        "[processNode 1800000000002 (example_edges ! 2)]"
        initial_map_state _ "example_edges ! 1" "example_edges ! 2" "12.97" "77.59" "48.85" "2.35"]
  from t h l n have
    "length (photos (final (loadPhotos example_map_env initial_map_state))) = 2 \<and>
     map uri (photos (final (loadPhotos example_map_env initial_map_state))) =
        [image_uri (node_image (example_edges ! 1)), image_uri (node_image (example_edges ! 2))] \<and>
     region (final (loadPhotos example_map_env initial_map_state)) =
        \<lparr>region_latitude = Num 12.97, region_longitude = Num 77.59,
         latitudeDelta = 0.02, longitudeDelta = 0.02\<rparr>"
    by blast
  moreover from t h example_processPhotos have
    "photos (final (loadPhotos example_map_env initial_map_state)) =
       [processNode 1800000000001 (example_edges ! 1),
        processNode 1800000000002 (example_edges ! 2)]"
    by blast
  ultimately show ?thesis using h l u example_processPhotos by simp
qed

text \<open>
  The scenario of claim C8 as it is stated, without the condition on the coordinates, fails:
  of the three entries of \<open>equator_edges\<close> one has no location field and two have one, but
  the second lies on the equator (latitude \<open>0\<close>, longitude \<open>32.58\<close>) and the filter drops
  it; the list has length 1 and the region is centred on the third entry.
\<close>

theorem loadPhotos_scenario_counterexample:
  "permissionsGranted equator_map_env \<and>
   getPhotos equator_map_env photosQuery = Inr equator_edges \<and>
   length equator_edges = 3 \<and>
   map hasLocationField equator_edges = [False, True, True] \<and>
   length (photos (final (loadPhotos equator_map_env initial_map_state))) \<noteq> 2 \<and>
   map uri (photos (final (loadPhotos equator_map_env initial_map_state))) = [''ph://3''] \<and>
   region_latitude (region (final (loadPhotos equator_map_env initial_map_state))) = Num 12.97"
  by (simp add: equator_map_env_def equator_edges_def example_node_def hasLocationField_def
      loadPhotos_def processPhotos_def mapEdges_three hasCoordinates_def
      processNode_def or_zero_def Let_def initial_map_state_def)

text \<open>
  Claim C10. The promise of \<^verbatim>\<open>loadPhotos\<close> always resolves; when the query throws, the
  component state (the photo list and the region among it) is the state before the call,
  and the error is written to the console.
\<close>

theorem loadPhotos_atomic_on_error:
  "outcome (loadPhotos env s) = Resolved () \<and>
   (permissionsGranted env \<and> getPhotos env photosQuery = Inl e \<longrightarrow>
      final (loadPhotos env s) = s \<and>
      photos (final (loadPhotos env s)) = photos s \<and>
      region (final (loadPhotos env s)) = region s \<and>
      trace (loadPhotos env s) =
        [CameraRollGetPhotos photosQuery, ConsoleError ''Error loading photos:''])"
  by (cases "getPhotos env photosQuery") (auto simp: loadPhotos_def Let_def)

theorem loadPhotos_atomic_on_error_witness:
  "permissionsGranted failing_map_env \<and>
   getPhotos failing_map_env photosQuery = Inl ''Permission denied'' \<and>
   final (loadPhotos failing_map_env example_map_state) = example_map_state \<and>
   photos (final (loadPhotos failing_map_env example_map_state)) = [example_photo] \<and>
   outcome (loadPhotos failing_map_env example_map_state) = Resolved ()"
  using loadPhotos_atomic_on_error [of failing_map_env example_map_state "''Permission denied''"]
  by (simp add: failing_map_env_def example_map_state_def)

section \<open>Properties of the capture workflow\<close>

subsection \<open>The runs of \<^verbatim>\<open>takePhoto\<close>\<close>

text \<open>
  Past the guard a run has one of two shapes: the camera returns a file with a non-empty
  path, and the run ends in the preview whatever the save answers; or it does not, and the
  run ends with the error message and without a captured image.
\<close>

lemma saveCalls_append: "saveCalls (xs @ ys) = saveCalls xs @ saveCalls ys"
  by (induction xs rule: saveCalls.induct) simp_all

lemma saveCalls_getCurrentLocation: "saveCalls (fst (getCurrentLocation env)) = []"
  by (simp add: getCurrentLocation_def split: sum.splits)

lemma saveCalls_saveToCameraRoll:
  "saveCalls (saveToCameraRoll env fp) = [(fp, ''GeoMapCamera'')]"
  by (simp add: saveToCameraRoll_def split: sum.splits)

lemma getCurrentLocation_error:
  "getCurrentPosition env = Inl e \<Longrightarrow>
   getCurrentLocation env =
     ([GeolocationGetCurrentPosition, ConsoleError ''Error getting location:''],
      sentinelLocation env)"
  by (simp add: getCurrentLocation_def sentinelLocation_def)

lemma takePhoto_guarded_blocked:
  "\<not> cameraRefCurrent env \<or> isCapturing s \<Longrightarrow>
   takePhoto_guarded env s = \<lparr>outcome = Resolved (), trace = [], final = s\<rparr>"
  by (auto simp: takePhoto_guarded_def)

lemma takePhoto_guarded_success:
  assumes "cameraRefCurrent env" and "\<not> isCapturing s"
    and "cameraTakePhoto env = Inr (Some photo)" and "path photo \<noteq> []"
  shows "takePhoto_guarded env s =
     \<lparr>outcome = Resolved (),
      trace = fst (getCurrentLocation env) @ [CameraTakePhoto] @
              saveToCameraRoll env (filePathOf (platform_OS env) (path photo)),
      final = s\<lparr>capturedImage :=
                  Some \<lparr>captured_uri = filePathOf (platform_OS env) (path photo),
                        captured_location = snd (getCurrentLocation env)\<rparr>,
                cam_location := Some (snd (getCurrentLocation env)),
                isCapturing := False,
                cameraError := None\<rparr>\<rparr>"
  using assms
  by (cases "getCurrentLocation env")
     (simp add: takePhoto_guarded_def takePhoto_finally_def takePhoto_catch_def
        takePhoto_try_def takePhoto_enter_def Let_def)

lemma takePhoto_guarded_failure:
  assumes "cameraRefCurrent env" and "\<not> isCapturing s"
    and "\<And>photo. cameraTakePhoto env = Inr (Some photo) \<Longrightarrow> path photo = []"
  shows "takePhoto_guarded env s =
     \<lparr>outcome = Rejected ''Function not implemented.'',
      trace = fst (getCurrentLocation env) @
              [CameraTakePhoto, ConsoleError ''Error taking photo:'', AlertCall failureMessage],
      final = s\<lparr>cam_location := Some (snd (getCurrentLocation env)),
                isCapturing := False,
                cameraError := Some failureMessage\<rparr>\<rparr>"
  using assms
  by (cases "getCurrentLocation env")
     (auto simp add: takePhoto_guarded_def takePhoto_finally_def takePhoto_catch_def
        takePhoto_try_def takePhoto_enter_def Let_def alert_def failureMessage_def
        split: sum.splits option.splits)

lemma takePhoto_allowed:
  assumes "hasPermission env \<or> requestPermission env = Inr True"
  shows "outcome (takePhoto env s) = outcome (takePhoto_guarded env s)"
    and "final (takePhoto env s) = final (takePhoto_guarded env s)"
    and "trace (takePhoto env s) =
           (if hasPermission env then [] else [CameraRequestPermission]) @
           trace (takePhoto_guarded env s)"
  using assms by (auto simp: takePhoto_def Let_def)

lemma takePhoto_final_cases:
  "final (takePhoto env s) = s \<or> final (takePhoto env s) = final (takePhoto_guarded env s)"
  by (auto simp: takePhoto_def Let_def split: sum.splits)

lemma takePhoto_guarded_clears_flag:
  "\<not> isCapturing s \<Longrightarrow> \<not> isCapturing (final (takePhoto_guarded env s))"
  by (auto simp: takePhoto_guarded_def takePhoto_finally_def)

lemma takePhoto_clears_flag: "\<not> isCapturing s \<Longrightarrow> \<not> isCapturing (final (takePhoto env s))"
  using takePhoto_final_cases [of env s] takePhoto_guarded_clears_flag [of s env] by auto

lemma takePhoto_in_flight_noop:
  assumes "isCapturing s"
  shows "final (takePhoto env s) = s"
    and "saveCalls (trace (takePhoto env s)) = []"
    and "CameraTakePhoto \<notin> set (trace (takePhoto env s))"
    and "GeolocationGetCurrentPosition \<notin> set (trace (takePhoto env s))"
  using assms
  by (auto simp: takePhoto_def takePhoto_guarded_def Let_def split: sum.splits)

lemma takePhoto_guarded_ignores_previous:
  assumes "cameraRefCurrent env" and "\<not> isCapturing s"
  shows "takePhoto_guarded env (s\<lparr>capturedImage := None\<rparr>) =
         takePhoto_guarded env
           \<lparr>capturedImage = None, cam_location = None, isCapturing = False,
            cameraPosition = cameraPosition s, cameraError = None\<rparr>"
  using assms
  by (cases "getCurrentLocation env")
     (auto simp add: takePhoto_guarded_def takePhoto_finally_def takePhoto_catch_def
        takePhoto_try_def takePhoto_enter_def Let_def alert_def
        split: sum.splits option.splits)

lemma preview_cam_state_eq:
  "preview_cam_state =
     \<lparr>capturedImage =
        Some \<lparr>captured_uri = ''file:///cache/IMG_1.jpg'',
              captured_location =
                \<lparr>latitude = Num 0, longitude = Num 0, timestamp = 1800000000000,
                 date = ''1/15/2027, 8:00:00 AM''\<rparr>\<rparr>,
      cam_location =
        Some \<lparr>latitude = Num 0, longitude = Num 0, timestamp = 1800000000000,
              date = ''1/15/2027, 8:00:00 AM''\<rparr>,
      isCapturing = False, cameraPosition = Back, cameraError = None\<rparr>"
  by (simp add: preview_cam_state_def takePhoto_def takePhoto_guarded_def takePhoto_finally_def
      takePhoto_catch_def takePhoto_try_def takePhoto_enter_def getCurrentLocation_def
      example_cam_env_def initial_cam_state_def filePathOf_def Let_def)

text \<open>
  In the failing run the last statement of the \<^verbatim>\<open>catch\<close> calls the \<open>alert\<close> of the module,
  which throws: the promise of \<^verbatim>\<open>takePhoto\<close> rejects, after the message has been stored and
  with the \<^verbatim>\<open>finally\<close> still run. Retaking a photo keeps the location of the last fix.
\<close>

lemma takePhoto_failure_rejects:
  assumes "hasPermission env \<or> requestPermission env = Inr True"
    and "cameraRefCurrent env" and "\<not> isCapturing s"
    and "\<And>photo. cameraTakePhoto env = Inr (Some photo) \<Longrightarrow> path photo = []"
  shows "outcome (takePhoto env s) = Rejected ''Function not implemented.''"
  using takePhoto_guarded_failure [OF assms(2-4)] by (simp add: takePhoto_allowed [OF assms(1)])

lemma retakePhoto_keeps_location: "cam_location (retakePhoto s) = cam_location s"
  by (simp add: retakePhoto_def)

subsection \<open>Claims about the capture workflow\<close>

text \<open>
  Claim C1. When the location provider answers with an error (a timeout is one of its
  errors), a capture that has camera permission and passes the guard is not aborted: the
  location \<open>(0, 0)\<close> stamped with the current time becomes the location of the component
  and the shutter is called. When the camera then returns a file with a non-empty path
  the promise resolves, the captured image is that file with the location \<open>(0, 0)\<close>, no
  error is shown and the save of the file is issued.
\<close>

theorem takePhoto_location_failure_sentinel:
  assumes "getCurrentPosition env = Inl e"
    and "hasPermission env \<or> requestPermission env = Inr True"
    and "cameraRefCurrent env" and "\<not> isCapturing s"
  shows "cam_location (final (takePhoto env s)) =
           Some \<lparr>latitude = Num 0, longitude = Num 0, timestamp = cam_dateNow env,
                 date = toLocaleString env (newDate env)\<rparr> \<and>
         CameraTakePhoto \<in> set (trace (takePhoto env s)) \<and>
         (cameraTakePhoto env = Inr (Some photo) \<and> path photo \<noteq> [] \<longrightarrow>
            outcome (takePhoto env s) = Resolved () \<and>
            capturedImage (final (takePhoto env s)) =
              Some \<lparr>captured_uri = filePathOf (platform_OS env) (path photo),
                    captured_location =
                      \<lparr>latitude = Num 0, longitude = Num 0, timestamp = cam_dateNow env,
                       date = toLocaleString env (newDate env)\<rparr>\<rparr> \<and>
            cameraError (final (takePhoto env s)) = None \<and>
            saveCalls (trace (takePhoto env s)) =
              [(filePathOf (platform_OS env) (path photo), ''GeoMapCamera'')])"
proof -
  note loc = getCurrentLocation_error [OF assms(1)]
  have a: "cam_location (final (takePhoto env s)) = Some (sentinelLocation env) \<and>
           CameraTakePhoto \<in> set (trace (takePhoto env s))"
  proof (cases "\<exists>photo. cameraTakePhoto env = Inr (Some photo) \<and> path photo \<noteq> []")
    case True
    then obtain ph where "cameraTakePhoto env = Inr (Some ph)" "path ph \<noteq> []" by blast
    from takePhoto_guarded_success [OF assms(3,4) this] show ?thesis
      by (simp add: takePhoto_allowed [OF assms(2)] loc)
  next
    case False
    then have "\<And>photo. cameraTakePhoto env = Inr (Some photo) \<Longrightarrow> path photo = []" by blast
    from takePhoto_guarded_failure [OF assms(3,4) this] show ?thesis
      by (simp add: takePhoto_allowed [OF assms(2)] loc)
  qed
  have b: "outcome (takePhoto env s) = Resolved () \<and>
            capturedImage (final (takePhoto env s)) =
              Some \<lparr>captured_uri = filePathOf (platform_OS env) (path photo),
                    captured_location = sentinelLocation env\<rparr> \<and>
            cameraError (final (takePhoto env s)) = None \<and>
            saveCalls (trace (takePhoto env s)) =
              [(filePathOf (platform_OS env) (path photo), ''GeoMapCamera'')]"
    if "cameraTakePhoto env = Inr (Some photo)" "path photo \<noteq> []"
    using takePhoto_guarded_success [OF assms(3,4) that]
    by (simp add: takePhoto_allowed [OF assms(2)] loc saveCalls_append
        saveCalls_saveToCameraRoll)
  from a b show ?thesis by (simp add: sentinelLocation_def)
qed

theorem takePhoto_location_failure_sentinel_witness:
  "getCurrentPosition example_cam_env = Inl ''Location request timed out.'' \<and>
   hasPermission example_cam_env \<and> cameraRefCurrent example_cam_env \<and>
   \<not> isCapturing initial_cam_state \<and>
   cameraTakePhoto example_cam_env = Inr (Some \<lparr>path = ''/cache/IMG_1.jpg''\<rparr>) \<and>
   outcome (takePhoto example_cam_env initial_cam_state) = Resolved () \<and>
   capturedImage (final (takePhoto example_cam_env initial_cam_state)) =
     Some \<lparr>captured_uri = ''file:///cache/IMG_1.jpg'',
           captured_location =
             \<lparr>latitude = Num 0, longitude = Num 0, timestamp = 1800000000000,
              date = ''1/15/2027, 8:00:00 AM''\<rparr>\<rparr>"
  using takePhoto_location_failure_sentinel
    [of example_cam_env "''Location request timed out.''" initial_cam_state
        "\<lparr>path = ''/cache/IMG_1.jpg''\<rparr>"]
  by (simp add: example_cam_env_def initial_cam_state_def filePathOf_def)

text \<open>
  Claim C3. A handler reads the state of the render it belongs to, and the component is
  rendered again after the synchronous part of \<^verbatim>\<open>takePhoto\<close>; a press during a capture
  therefore runs \<^verbatim>\<open>takePhoto\<close> on a state the capture has published. Both such states, the
  one before the location is awaited and the one after it has been stored, have the
  in-flight flag set. A run on a state with the flag set leaves the state as it is and
  issues no location request, no shutter call and no save; with camera permission it
  does nothing at all. The saves of a capture and of a second invocation during it are
  the saves of the capture alone: exactly one when the camera returned a usable file, and
  exactly one stored record when that save succeeded.
\<close>

theorem takePhoto_reentrant_noop:
  "isCapturing (takePhoto_enter s0) \<and>
   isCapturing ((takePhoto_enter s0)\<lparr>cam_location := Some loc\<rparr>) \<and>
   (isCapturing s \<longrightarrow>
      final (takePhoto env2 s) = s \<and>
      saveCalls (trace (takePhoto env2 s)) = [] \<and>
      CameraTakePhoto \<notin> set (trace (takePhoto env2 s)) \<and>
      GeolocationGetCurrentPosition \<notin> set (trace (takePhoto env2 s)) \<and>
      (hasPermission env2 \<longrightarrow>
         takePhoto env2 s = \<lparr>outcome = Resolved (), trace = [], final = s\<rparr>)) \<and>
   saveCalls (trace (takePhoto env s0) @ trace (takePhoto env2 (takePhoto_enter s0))) =
     saveCalls (trace (takePhoto env s0)) \<and>
   (hasPermission env \<and> cameraRefCurrent env \<and> \<not> isCapturing s0 \<and>
    cameraTakePhoto env = Inr (Some photo) \<and> path photo \<noteq> [] \<longrightarrow>
      saveCalls (trace (takePhoto env s0) @ trace (takePhoto env2 (takePhoto_enter s0))) =
        [(filePathOf (platform_OS env) (path photo), ''GeoMapCamera'')] \<and>
      (cameraRollSave env (filePathOf (platform_OS env) (path photo)) ''GeoMapCamera'' = Inr () \<longrightarrow>
         persistedRecords env
           (trace (takePhoto env s0) @ trace (takePhoto env2 (takePhoto_enter s0))) =
           [(filePathOf (platform_OS env) (path photo), ''GeoMapCamera'')]))"
proof -
  have e: "isCapturing (takePhoto_enter s0) \<and>
           isCapturing ((takePhoto_enter s0)\<lparr>cam_location := Some loc\<rparr>)"
    by (simp add: takePhoto_enter_def)
  have n: "isCapturing s \<longrightarrow>
      final (takePhoto env2 s) = s \<and>
      saveCalls (trace (takePhoto env2 s)) = [] \<and>
      CameraTakePhoto \<notin> set (trace (takePhoto env2 s)) \<and>
      GeolocationGetCurrentPosition \<notin> set (trace (takePhoto env2 s)) \<and>
      (hasPermission env2 \<longrightarrow>
         takePhoto env2 s = \<lparr>outcome = Resolved (), trace = [], final = s\<rparr>)"
    by (simp add: takePhoto_in_flight_noop) (simp add: takePhoto_def takePhoto_guarded_def)
  have t: "saveCalls (trace (takePhoto env s0) @ trace (takePhoto env2 (takePhoto_enter s0))) =
     saveCalls (trace (takePhoto env s0))"
    using e by (simp add: saveCalls_append takePhoto_in_flight_noop)
  have o: "saveCalls (trace (takePhoto env s0)) =
        [(filePathOf (platform_OS env) (path photo), ''GeoMapCamera'')]"
    if "hasPermission env" "cameraRefCurrent env" "\<not> isCapturing s0"
       "cameraTakePhoto env = Inr (Some photo)" "path photo \<noteq> []"
    using takePhoto_guarded_success [OF that(2-5)] that(1)
    by (simp add: takePhoto_allowed saveCalls_append saveCalls_saveToCameraRoll
        saveCalls_getCurrentLocation)
  from e n t o show ?thesis by (simp add: persistedRecords_def)
qed

theorem takePhoto_reentrant_noop_witness:
  "isCapturing (takePhoto_enter initial_cam_state) \<and>
   hasPermission example_cam_env \<and> cameraRefCurrent example_cam_env \<and>
   \<not> isCapturing initial_cam_state \<and>
   cameraTakePhoto example_cam_env = Inr (Some \<lparr>path = ''/cache/IMG_1.jpg''\<rparr>) \<and>
   takePhoto example_cam_env (takePhoto_enter initial_cam_state) =
     \<lparr>outcome = Resolved (), trace = [], final = takePhoto_enter initial_cam_state\<rparr> \<and>
   cameraRollSave example_cam_env ''file:///cache/IMG_1.jpg'' ''GeoMapCamera'' = Inr () \<and>
   persistedRecords example_cam_env
     (trace (takePhoto example_cam_env initial_cam_state) @
      trace (takePhoto example_cam_env (takePhoto_enter initial_cam_state))) =
     [(''file:///cache/IMG_1.jpg'', ''GeoMapCamera'')]"
proof -
  have h: "hasPermission example_cam_env \<and> cameraRefCurrent example_cam_env \<and>
           \<not> isCapturing initial_cam_state \<and>
           cameraTakePhoto example_cam_env = Inr (Some \<lparr>path = ''/cache/IMG_1.jpg''\<rparr>) \<and>
           path \<lparr>path = ''/cache/IMG_1.jpg''\<rparr> \<noteq> []"
    by (simp add: example_cam_env_def initial_cam_state_def)
  have f: "filePathOf (platform_OS example_cam_env) (path \<lparr>path = ''/cache/IMG_1.jpg''\<rparr>) =
           ''file:///cache/IMG_1.jpg''"
    by (simp add: example_cam_env_def filePathOf_def)
  note t = takePhoto_reentrant_noop
    [of initial_cam_state _ "takePhoto_enter initial_cam_state" example_cam_env example_cam_env
        "\<lparr>path = ''/cache/IMG_1.jpg''\<rparr>"]
  from t have e: "isCapturing (takePhoto_enter initial_cam_state)" by blast
  with t h have "takePhoto example_cam_env (takePhoto_enter initial_cam_state) =
     \<lparr>outcome = Resolved (), trace = [], final = takePhoto_enter initial_cam_state\<rparr>"
    by blast
  moreover have k: "cameraRollSave example_cam_env
       (filePathOf (platform_OS example_cam_env) (path \<lparr>path = ''/cache/IMG_1.jpg''\<rparr>))
       ''GeoMapCamera'' = Inr ()"
    by (simp add: example_cam_env_def)
  moreover from t h k have
    "persistedRecords example_cam_env
       (trace (takePhoto example_cam_env initial_cam_state) @
        trace (takePhoto example_cam_env (takePhoto_enter initial_cam_state))) =
       [(filePathOf (platform_OS example_cam_env) (path \<lparr>path = ''/cache/IMG_1.jpg''\<rparr>),
         ''GeoMapCamera'')]"
    by blast
  ultimately show ?thesis using e h f by simp
qed

text \<open>
  Claim C5. When the camera returns a file with a non-empty path and the save of it
  fails, the promise of \<^verbatim>\<open>takePhoto\<close> still resolves: the captured image is the file with
  the location of the fix, the preview is rendered, no error message is stored, the
  in-flight flag is cleared, the failure of the save is written to the console, and
  neither the handler of a failed capture nor an alert is reached.
\<close>

theorem takePhoto_save_failure_nonfatal:
  assumes "hasPermission env \<or> requestPermission env = Inr True"
    and "cameraRefCurrent env" and "\<not> isCapturing s"
    and "cameraTakePhoto env = Inr (Some photo)" and "path photo \<noteq> []"
    and "cameraRollSave env (filePathOf (platform_OS env) (path photo)) ''GeoMapCamera'' = Inl e"
  shows "outcome (takePhoto env s) = Resolved () \<and>
         capturedImage (final (takePhoto env s)) =
           Some \<lparr>captured_uri = filePathOf (platform_OS env) (path photo),
                 captured_location = snd (getCurrentLocation env)\<rparr> \<and>
         cam_location (final (takePhoto env s)) = Some (snd (getCurrentLocation env)) \<and>
         render (env\<lparr>hasPermission := True\<rparr>) (final (takePhoto env s)) = PreviewScreen \<and>
         cameraError (final (takePhoto env s)) = None \<and>
         \<not> isCapturing (final (takePhoto env s)) \<and>
         ConsoleError ''Error saving to camera roll:'' \<in> set (trace (takePhoto env s)) \<and>
         ConsoleError ''Error taking photo:'' \<notin> set (trace (takePhoto env s)) \<and>
         AlertCall m \<notin> set (trace (takePhoto env s))"
  using takePhoto_guarded_success [OF assms(2-5)] assms(6)
  by (simp add: takePhoto_allowed [OF assms(1)] render_def saveToCameraRoll_def
      getCurrentLocation_def split: sum.splits)

theorem takePhoto_save_failure_nonfatal_witness:
  "hasPermission save_failing_cam_env \<and> cameraRefCurrent save_failing_cam_env \<and>
   \<not> isCapturing initial_cam_state \<and>
   cameraTakePhoto save_failing_cam_env = Inr (Some \<lparr>path = ''/cache/IMG_1.jpg''\<rparr>) \<and>
   cameraRollSave save_failing_cam_env ''file:///cache/IMG_1.jpg'' ''GeoMapCamera'' =
     Inl ''Could not save the file.'' \<and>
   outcome (takePhoto save_failing_cam_env initial_cam_state) = Resolved () \<and>
   render save_failing_cam_env (final (takePhoto save_failing_cam_env initial_cam_state)) =
     PreviewScreen \<and>
   cameraError (final (takePhoto save_failing_cam_env initial_cam_state)) = None"
  using takePhoto_save_failure_nonfatal
    [of save_failing_cam_env initial_cam_state "\<lparr>path = ''/cache/IMG_1.jpg''\<rparr>"
        "''Could not save the file.''"]
  by (simp add: save_failing_cam_env_def example_cam_env_def initial_cam_state_def
      filePathOf_def)

text \<open>
  Claim C6. \<^verbatim>\<open>retakePhoto\<close> clears the captured image and changes neither the in-flight
  flag nor the camera position; with camera permission and a camera format the camera
  screen is rendered again. A capture after it that passes the guard runs exactly as on
  the state the component mounts with (at the same camera position): nothing of the
  discarded photo is read. When the camera returns a usable file the state after it holds
  the new file and the new location only, and the preview is rendered.
\<close>

theorem retakePhoto_then_capture:
  "capturedImage (retakePhoto s) = None \<and>
   isCapturing (retakePhoto s) = isCapturing s \<and>
   cameraPosition (retakePhoto s) = cameraPosition s \<and>
   (hasPermission env \<and> format env s \<noteq> None \<longrightarrow>
      render env (retakePhoto s) = CameraScreen) \<and>
   ((hasPermission env \<or> requestPermission env = Inr True) \<and>
    cameraRefCurrent env \<and> \<not> isCapturing s \<longrightarrow>
      takePhoto env (retakePhoto s) =
        takePhoto env (initial_cam_state\<lparr>cameraPosition := cameraPosition s\<rparr>) \<and>
      (cameraTakePhoto env = Inr (Some photo) \<and> path photo \<noteq> [] \<longrightarrow>
         outcome (takePhoto env (retakePhoto s)) = Resolved () \<and>
         final (takePhoto env (retakePhoto s)) =
           \<lparr>capturedImage =
              Some \<lparr>captured_uri = filePathOf (platform_OS env) (path photo),
                    captured_location = snd (getCurrentLocation env)\<rparr>,
            cam_location = Some (snd (getCurrentLocation env)),
            isCapturing = False,
            cameraPosition = cameraPosition s,
            cameraError = None\<rparr> \<and>
         render (env\<lparr>hasPermission := True\<rparr>) (final (takePhoto env (retakePhoto s))) =
           PreviewScreen))"
proof (intro conjI impI)
  show "capturedImage (retakePhoto s) = None" by (simp add: retakePhoto_def)
  show "isCapturing (retakePhoto s) = isCapturing s" by (simp add: retakePhoto_def)
  show "cameraPosition (retakePhoto s) = cameraPosition s" by (simp add: retakePhoto_def)
next
  assume "hasPermission env \<and> format env s \<noteq> None"
  then show "render env (retakePhoto s) = CameraScreen"
    by (auto simp: render_def retakePhoto_def device_def format_def split: option.splits)
next
  assume a: "(hasPermission env \<or> requestPermission env = Inr True) \<and>
    cameraRefCurrent env \<and> \<not> isCapturing s"
  then have p: "hasPermission env \<or> requestPermission env = Inr True"
    and c: "cameraRefCurrent env" and i: "\<not> isCapturing s" by simp_all
  have g: "takePhoto_guarded env (retakePhoto s) =
           takePhoto_guarded env (initial_cam_state\<lparr>cameraPosition := cameraPosition s\<rparr>)"
    using takePhoto_guarded_ignores_previous [OF c i]
    by (simp add: retakePhoto_def initial_cam_state_def)
  show e: "takePhoto env (retakePhoto s) =
        takePhoto env (initial_cam_state\<lparr>cameraPosition := cameraPosition s\<rparr>)"
    using p by (auto simp: takePhoto_def g)
  {
    assume b: "cameraTakePhoto env = Inr (Some photo) \<and> path photo \<noteq> []"
    then have ph: "cameraTakePhoto env = Inr (Some photo)" and np: "path photo \<noteq> []"
      by simp_all
    have i0: "\<not> isCapturing (initial_cam_state\<lparr>cameraPosition := cameraPosition s\<rparr>)"
      by (simp add: initial_cam_state_def)
    note g0 = takePhoto_guarded_success [OF c i0 ph np]
    show "outcome (takePhoto env (retakePhoto s)) = Resolved ()"
      by (simp add: e takePhoto_allowed [OF p] g0)
    show f: "final (takePhoto env (retakePhoto s)) =
           \<lparr>capturedImage =
              Some \<lparr>captured_uri = filePathOf (platform_OS env) (path photo),
                    captured_location = snd (getCurrentLocation env)\<rparr>,
            cam_location = Some (snd (getCurrentLocation env)),
            isCapturing = False,
            cameraPosition = cameraPosition s,
            cameraError = None\<rparr>"
      using g0 by (simp add: e takePhoto_allowed [OF p] initial_cam_state_def)
    show "render (env\<lparr>hasPermission := True\<rparr>) (final (takePhoto env (retakePhoto s))) =
           PreviewScreen"
      by (simp add: f render_def)
  }
qed

theorem retakePhoto_then_capture_witness:
  "hasPermission second_cam_env \<and> cameraRefCurrent second_cam_env \<and>
   \<not> isCapturing preview_cam_state \<and>
   capturedImage preview_cam_state \<noteq> None \<and>
   format second_cam_env preview_cam_state \<noteq> None \<and>
   cameraTakePhoto second_cam_env = Inr (Some \<lparr>path = ''/cache/IMG_2.jpg''\<rparr>) \<and>
   render second_cam_env (retakePhoto preview_cam_state) = CameraScreen \<and>
   final (takePhoto second_cam_env (retakePhoto preview_cam_state)) =
     \<lparr>capturedImage =
        Some \<lparr>captured_uri = ''file:///cache/IMG_2.jpg'',
              captured_location =
                \<lparr>latitude = Num 12.97, longitude = Num 77.59, timestamp = 1800000060000,
                 date = ''1/15/2027, 8:01:00 AM''\<rparr>\<rparr>,
      cam_location =
        Some \<lparr>latitude = Num 12.97, longitude = Num 77.59, timestamp = 1800000060000,
              date = ''1/15/2027, 8:01:00 AM''\<rparr>,
      isCapturing = False, cameraPosition = Back, cameraError = None\<rparr>"
proof -
  have h: "hasPermission second_cam_env \<and> cameraRefCurrent second_cam_env \<and>
           \<not> isCapturing preview_cam_state \<and> capturedImage preview_cam_state \<noteq> None \<and>
           format second_cam_env preview_cam_state \<noteq> None \<and>
           cameraTakePhoto second_cam_env = Inr (Some \<lparr>path = ''/cache/IMG_2.jpg''\<rparr>) \<and>
           path \<lparr>path = ''/cache/IMG_2.jpg''\<rparr> \<noteq> []"
    by (simp add: second_cam_env_def example_cam_env_def preview_cam_state_eq device_def
        format_def)
  have v: "filePathOf (platform_OS second_cam_env) (path \<lparr>path = ''/cache/IMG_2.jpg''\<rparr>) =
             ''file:///cache/IMG_2.jpg'' \<and>
           snd (getCurrentLocation second_cam_env) =
             \<lparr>latitude = Num 12.97, longitude = Num 77.59, timestamp = 1800000060000,
              date = ''1/15/2027, 8:01:00 AM''\<rparr> \<and>
           cameraPosition preview_cam_state = Back"
    by (simp add: second_cam_env_def example_cam_env_def filePathOf_def getCurrentLocation_def
        preview_cam_state_eq)
  note t = retakePhoto_then_capture
    [of preview_cam_state second_cam_env "\<lparr>path = ''/cache/IMG_2.jpg''\<rparr>"]
  from t h have "render second_cam_env (retakePhoto preview_cam_state) = CameraScreen"
    by blast
  moreover from t h have
    "final (takePhoto second_cam_env (retakePhoto preview_cam_state)) =
           \<lparr>capturedImage =
              Some \<lparr>captured_uri =
                      filePathOf (platform_OS second_cam_env)
                        (path \<lparr>path = ''/cache/IMG_2.jpg''\<rparr>),
                    captured_location = snd (getCurrentLocation second_cam_env)\<rparr>,
            cam_location = Some (snd (getCurrentLocation second_cam_env)),
            isCapturing = False,
            cameraPosition = cameraPosition preview_cam_state,
            cameraError = None\<rparr>"
    by blast
  ultimately show ?thesis using h v by simp
qed

text \<open>
  Claim C9. No run of \<^verbatim>\<open>takePhoto\<close> that starts with the in-flight flag cleared ends with
  the flag set. When the shutter call throws, returns nothing or returns a file with an
  empty path, the message "Failed to take photo. Please try again." is stored as the
  camera error (the camera screen shows it), the failure is written to the console, the
  flag is cleared, no save is issued and the captured image and the screen are as
  before; a capture after it, on a camera that returns a usable file, resolves, stores
  the captured image and clears the message.
\<close>

theorem takePhoto_failure_returns_to_idle:
  "(\<not> isCapturing s \<longrightarrow> \<not> isCapturing (final (takePhoto env s))) \<and>
   ((hasPermission env \<or> requestPermission env = Inr True) \<and>
    cameraRefCurrent env \<and> \<not> isCapturing s \<and>
    (cameraTakePhoto env = Inl e \<or> cameraTakePhoto env = Inr None \<or>
     cameraTakePhoto env = Inr (Some \<lparr>path = ''''\<rparr>)) \<longrightarrow>
      cameraError (final (takePhoto env s)) = Some ''Failed to take photo. Please try again.'' \<and>
      \<not> isCapturing (final (takePhoto env s)) \<and>
      capturedImage (final (takePhoto env s)) = capturedImage s \<and>
      render (env\<lparr>hasPermission := True\<rparr>) (final (takePhoto env s)) =
        render (env\<lparr>hasPermission := True\<rparr>) s \<and>
      ConsoleError ''Error taking photo:'' \<in> set (trace (takePhoto env s)) \<and>
      saveCalls (trace (takePhoto env s)) = [] \<and>
      (hasPermission env2 \<and> cameraRefCurrent env2 \<and>
       cameraTakePhoto env2 = Inr (Some photo) \<and> path photo \<noteq> [] \<longrightarrow>
         outcome (takePhoto env2 (final (takePhoto env s))) = Resolved () \<and>
         capturedImage (final (takePhoto env2 (final (takePhoto env s)))) =
           Some \<lparr>captured_uri = filePathOf (platform_OS env2) (path photo),
                 captured_location = snd (getCurrentLocation env2)\<rparr> \<and>
         cameraError (final (takePhoto env2 (final (takePhoto env s)))) = None))"
proof (intro conjI impI)
  assume "\<not> isCapturing s"
  then show "\<not> isCapturing (final (takePhoto env s))" by (rule takePhoto_clears_flag)
next
  assume a: "(hasPermission env \<or> requestPermission env = Inr True) \<and>
    cameraRefCurrent env \<and> \<not> isCapturing s \<and>
    (cameraTakePhoto env = Inl e \<or> cameraTakePhoto env = Inr None \<or>
     cameraTakePhoto env = Inr (Some \<lparr>path = ''''\<rparr>))"
  then have p: "hasPermission env \<or> requestPermission env = Inr True"
    and c: "cameraRefCurrent env" and i: "\<not> isCapturing s" by simp_all
  from a have "\<And>photo. cameraTakePhoto env = Inr (Some photo) \<Longrightarrow> path photo = []" by auto
  note g = takePhoto_guarded_failure [OF c i this]
  have f: "final (takePhoto env s) =
             s\<lparr>cam_location := Some (snd (getCurrentLocation env)),
               isCapturing := False, cameraError := Some failureMessage\<rparr>"
    by (simp add: takePhoto_allowed [OF p] g)
  have t: "trace (takePhoto env s) =
             (if hasPermission env then [] else [CameraRequestPermission]) @
             fst (getCurrentLocation env) @
             [CameraTakePhoto, ConsoleError ''Error taking photo:'', AlertCall failureMessage]"
    by (simp add: takePhoto_allowed [OF p] g)
  show "cameraError (final (takePhoto env s)) = Some ''Failed to take photo. Please try again.''"
    by (simp add: f failureMessage_def)
  show "\<not> isCapturing (final (takePhoto env s))" by (simp add: f)
  show "capturedImage (final (takePhoto env s)) = capturedImage s" by (simp add: f)
  show "render (env\<lparr>hasPermission := True\<rparr>) (final (takePhoto env s)) =
        render (env\<lparr>hasPermission := True\<rparr>) s"
    by (simp add: f render_def device_def format_def)
  show "ConsoleError ''Error taking photo:'' \<in> set (trace (takePhoto env s))"
    by (simp add: t)
  show "saveCalls (trace (takePhoto env s)) = []"
    by (simp add: t saveCalls_append saveCalls_getCurrentLocation)
  {
    assume b: "hasPermission env2 \<and> cameraRefCurrent env2 \<and>
       cameraTakePhoto env2 = Inr (Some photo) \<and> path photo \<noteq> []"
    have i2: "\<not> isCapturing (final (takePhoto env s))" by (simp add: f)
    from b have c2: "cameraRefCurrent env2" and ph: "cameraTakePhoto env2 = Inr (Some photo)"
      and np: "path photo \<noteq> []" and p2: "hasPermission env2 \<or> requestPermission env2 = Inr True"
      by simp_all
    note g2 = takePhoto_guarded_success [OF c2 i2 ph np]
    show "outcome (takePhoto env2 (final (takePhoto env s))) = Resolved ()"
      by (simp add: takePhoto_allowed [OF p2] g2)
    show "capturedImage (final (takePhoto env2 (final (takePhoto env s)))) =
           Some \<lparr>captured_uri = filePathOf (platform_OS env2) (path photo),
                 captured_location = snd (getCurrentLocation env2)\<rparr>"
      by (simp add: takePhoto_allowed [OF p2] g2)
    show "cameraError (final (takePhoto env2 (final (takePhoto env s)))) = None"
      by (simp add: takePhoto_allowed [OF p2] g2)
  }
qed

theorem takePhoto_failure_returns_to_idle_witness:
  "hasPermission empty_path_cam_env \<and> cameraRefCurrent empty_path_cam_env \<and>
   \<not> isCapturing initial_cam_state \<and>
   cameraTakePhoto empty_path_cam_env = Inr (Some \<lparr>path = ''''\<rparr>) \<and>
   hasPermission example_cam_env \<and> cameraRefCurrent example_cam_env \<and>
   cameraTakePhoto example_cam_env = Inr (Some \<lparr>path = ''/cache/IMG_1.jpg''\<rparr>) \<and>
   cameraError (final (takePhoto empty_path_cam_env initial_cam_state)) =
     Some ''Failed to take photo. Please try again.'' \<and>
   \<not> isCapturing (final (takePhoto empty_path_cam_env initial_cam_state)) \<and>
   render empty_path_cam_env (final (takePhoto empty_path_cam_env initial_cam_state)) =
     CameraScreen \<and>
   outcome (takePhoto example_cam_env (final (takePhoto empty_path_cam_env initial_cam_state))) =
     Resolved () \<and>
   cameraError
     (final (takePhoto example_cam_env (final (takePhoto empty_path_cam_env initial_cam_state)))) =
     None"
proof -
  have h: "(hasPermission empty_path_cam_env \<or> requestPermission empty_path_cam_env = Inr True) \<and>
           cameraRefCurrent empty_path_cam_env \<and> \<not> isCapturing initial_cam_state \<and>
           (cameraTakePhoto empty_path_cam_env = Inl [] \<or>
            cameraTakePhoto empty_path_cam_env = Inr None \<or>
            cameraTakePhoto empty_path_cam_env = Inr (Some \<lparr>path = ''''\<rparr>))"
    by (simp add: empty_path_cam_env_def example_cam_env_def initial_cam_state_def)
  have h1: "hasPermission empty_path_cam_env \<and> cameraRefCurrent empty_path_cam_env \<and>
           \<not> isCapturing initial_cam_state \<and>
           cameraTakePhoto empty_path_cam_env = Inr (Some \<lparr>path = ''''\<rparr>)"
    by (simp add: empty_path_cam_env_def example_cam_env_def initial_cam_state_def)
  have h2: "hasPermission example_cam_env \<and> cameraRefCurrent example_cam_env \<and>
            cameraTakePhoto example_cam_env = Inr (Some \<lparr>path = ''/cache/IMG_1.jpg''\<rparr>) \<and>
            path \<lparr>path = ''/cache/IMG_1.jpg''\<rparr> \<noteq> []"
    by (simp add: example_cam_env_def)
  have r: "render (empty_path_cam_env\<lparr>hasPermission := True\<rparr>) initial_cam_state = CameraScreen"
    "empty_path_cam_env\<lparr>hasPermission := True\<rparr> = empty_path_cam_env"
    by (simp_all add: render_def device_def format_def initial_cam_state_def
        empty_path_cam_env_def example_cam_env_def)
  note t = takePhoto_failure_returns_to_idle
    [of initial_cam_state empty_path_cam_env "[]" example_cam_env
        "\<lparr>path = ''/cache/IMG_1.jpg''\<rparr>"]
  from t h have
    "cameraError (final (takePhoto empty_path_cam_env initial_cam_state)) =
       Some ''Failed to take photo. Please try again.'' \<and>
     \<not> isCapturing (final (takePhoto empty_path_cam_env initial_cam_state)) \<and>
     render (empty_path_cam_env\<lparr>hasPermission := True\<rparr>)
       (final (takePhoto empty_path_cam_env initial_cam_state)) =
       render (empty_path_cam_env\<lparr>hasPermission := True\<rparr>) initial_cam_state"
    by blast
  moreover from t h h2 have
    "outcome (takePhoto example_cam_env (final (takePhoto empty_path_cam_env initial_cam_state))) =
       Resolved () \<and>
     cameraError
       (final (takePhoto example_cam_env (final (takePhoto empty_path_cam_env initial_cam_state)))) =
       None"
    by blast
  ultimately show ?thesis using h1 h2 r by simp
qed

section \<open>Properties of the permission gate\<close>

lemmas requestPermissions_defs =
  requestPermissions_def requestPermissions_location_def requestPermissions_finish_def
  requestPermissions_catch_def platformSelect_def

lemma requestPermissions_unsupported:
  "perm_OS env = OtherOS \<Longrightarrow>
   requestPermissions env s =
     \<lparr>outcome = Resolved False,
      trace = [ConsoleError ''Permissions not defined for this platform''], final = s\<rparr>"
  by (simp add: requestPermissions_defs)

lemma requestPermissions_outcome_iff:
  assumes "platformSelect (perm_OS env) ANDROID_CAMERA IOS_CAMERA = Some cp"
    and "platformSelect (perm_OS env) ANDROID_ACCESS_FINE_LOCATION IOS_LOCATION_WHEN_IN_USE = Some lp"
  shows "outcome (requestPermissions env s) =
           Resolved (finalStatus env cp = Some GRANTED \<and> finalStatus env lp = Some GRANTED)"
  using assms
  by (cases "perm_OS env")
     (auto simp: requestPermissions_defs finalStatus_def Let_def split: sum.splits)

lemma requestPermissions_statuses:
  assumes "platformSelect (perm_OS env) ANDROID_CAMERA IOS_CAMERA = Some cp"
    and "platformSelect (perm_OS env) ANDROID_ACCESS_FINE_LOCATION IOS_LOCATION_WHEN_IN_USE = Some lp"
    and "finalStatus env cp = Some fc" and "finalStatus env lp = Some fl"
  shows "permissionsGranted_flag (final (requestPermissions env s)) =
           (fc = GRANTED \<and> fl = GRANTED)"
    and "permissionNotice \<in> set (trace (requestPermissions env s)) \<longleftrightarrow>
           \<not> (fc = GRANTED \<and> fl = GRANTED)"
  using assms
  by (cases "perm_OS env";
      auto simp: requestPermissions_defs finalStatus_def permissionNotice_def Let_def
           split: sum.splits if_splits)+

lemma requestPermissions_ignores_state:
  "outcome (requestPermissions env s) = outcome (requestPermissions env s')"
  "trace (requestPermissions env s) = trace (requestPermissions env s')"
  by (cases "perm_OS env";
      auto simp: requestPermissions_defs Let_def split: sum.splits)+

lemma requestPermissions_checks:
  assumes "platformSelect (perm_OS env) ANDROID_CAMERA IOS_CAMERA = Some cp"
  shows "PermissionCheck cp \<in> set (trace (requestPermissions env s))"
  using assms
  by (cases "perm_OS env";
      auto simp: requestPermissions_defs Let_def split: sum.splits)

lemma requestPermissions_checks_location:
  assumes "platformSelect (perm_OS env) ANDROID_CAMERA IOS_CAMERA = Some cp"
    and "platformSelect (perm_OS env) ANDROID_ACCESS_FINE_LOCATION IOS_LOCATION_WHEN_IN_USE = Some lp"
    and "check env cp = Inr st"
  shows "PermissionCheck lp \<in> set (trace (requestPermissions env s))"
  using assms
  by (cases "perm_OS env";
      auto simp: requestPermissions_defs Let_def split: sum.splits)

lemma requestPermissions_requests_only_needed:
  "PermissionRequest p \<in> set (trace (requestPermissions env s)) \<Longrightarrow>
   check env p \<noteq> Inr GRANTED"
  by (cases "perm_OS env";
      auto simp: requestPermissions_defs Let_def split: sum.splits if_splits)

lemma requestPermissions_call_fails:
  assumes "platformSelect (perm_OS env) ANDROID_CAMERA IOS_CAMERA = Some cp"
    and "platformSelect (perm_OS env) ANDROID_ACCESS_FINE_LOCATION IOS_LOCATION_WHEN_IN_USE = Some lp"
    and "finalStatus env cp = None \<or> finalStatus env lp = None"
  shows "outcome (requestPermissions env s) = Resolved False"
    and "final (requestPermissions env s) = s"
    and "permissionNotice \<notin> set (trace (requestPermissions env s))"
    and "ConsoleError ''Error requesting permissions:'' \<in> set (trace (requestPermissions env s))"
  using assms
  by (cases "perm_OS env";
      auto simp: requestPermissions_defs finalStatus_def permissionNotice_def Let_def
           split: sum.splits if_splits)+

lemma location_denied_run:
  "requestPermissions location_denied_env s =
     \<lparr>outcome = Resolved False,
      trace = [PermissionCheck ANDROID_CAMERA, PermissionCheck ANDROID_ACCESS_FINE_LOCATION,
               PermissionRequest ANDROID_ACCESS_FINE_LOCATION, permissionNotice],
      final = s\<lparr>permissionsGranted_flag := False\<rparr>\<rparr>"
  by (simp add: requestPermissions_defs location_denied_env_def permissionNotice_def)

text \<open>
  Claim C4, amended. On a platform without the two permissions \<^verbatim>\<open>requestPermissions\<close> resolves with
  \<^verbatim>\<open>false\<close>. On Android and iOS it resolves with \<^verbatim>\<open>true\<close> if and only if the final status
  of the camera and the final status of the location are both granted. Each invocation
  queries the status of the camera, and that of the location once the camera has
  answered; when both final statuses exist the flag of the hook becomes whether both are
  granted, and the notice is shown exactly when they are not both granted. A capability
  is requested only when its query did not answer granted, and neither the result nor the
  calls depend on the flag the hook held before.
\<close>

theorem requestPermissions_true_iff_both_granted:
  "(perm_OS env = OtherOS \<longrightarrow> outcome (requestPermissions env s) = Resolved False) \<and>
   (platformSelect (perm_OS env) ANDROID_CAMERA IOS_CAMERA = Some cp \<and>
    platformSelect (perm_OS env) ANDROID_ACCESS_FINE_LOCATION IOS_LOCATION_WHEN_IN_USE = Some lp \<longrightarrow>
      outcome (requestPermissions env s) =
        Resolved (finalStatus env cp = Some GRANTED \<and> finalStatus env lp = Some GRANTED) \<and>
      PermissionCheck cp \<in> set (trace (requestPermissions env s)) \<and>
      (check env cp = Inr st \<longrightarrow> PermissionCheck lp \<in> set (trace (requestPermissions env s))) \<and>
      (finalStatus env cp = Some fc \<and> finalStatus env lp = Some fl \<longrightarrow>
         permissionsGranted_flag (final (requestPermissions env s)) =
           (fc = GRANTED \<and> fl = GRANTED) \<and>
         (permissionNotice \<in> set (trace (requestPermissions env s)) \<longleftrightarrow>
            \<not> (fc = GRANTED \<and> fl = GRANTED)))) \<and>
   (PermissionRequest p \<in> set (trace (requestPermissions env s)) \<longrightarrow>
      check env p \<noteq> Inr GRANTED) \<and>
   outcome (requestPermissions env s) = outcome (requestPermissions env s') \<and>
   trace (requestPermissions env s) = trace (requestPermissions env s')"
proof (intro conjI impI)
  assume "perm_OS env = OtherOS"
  then show "outcome (requestPermissions env s) = Resolved False"
    by (simp add: requestPermissions_unsupported)
next
  assume a: "platformSelect (perm_OS env) ANDROID_CAMERA IOS_CAMERA = Some cp \<and>
    platformSelect (perm_OS env) ANDROID_ACCESS_FINE_LOCATION IOS_LOCATION_WHEN_IN_USE = Some lp"
  then have c: "platformSelect (perm_OS env) ANDROID_CAMERA IOS_CAMERA = Some cp"
    and l: "platformSelect (perm_OS env) ANDROID_ACCESS_FINE_LOCATION IOS_LOCATION_WHEN_IN_USE
              = Some lp"
    by simp_all
  show "outcome (requestPermissions env s) =
        Resolved (finalStatus env cp = Some GRANTED \<and> finalStatus env lp = Some GRANTED)"
    by (rule requestPermissions_outcome_iff [OF c l])
  show "PermissionCheck cp \<in> set (trace (requestPermissions env s))"
    by (rule requestPermissions_checks [OF c])
  {
    assume "check env cp = Inr st"
    then show "PermissionCheck lp \<in> set (trace (requestPermissions env s))"
      by (rule requestPermissions_checks_location [OF c l])
  }
  {
    assume f: "finalStatus env cp = Some fc \<and> finalStatus env lp = Some fl"
    then have fc: "finalStatus env cp = Some fc" and fl: "finalStatus env lp = Some fl"
      by simp_all
    show "permissionsGranted_flag (final (requestPermissions env s)) =
           (fc = GRANTED \<and> fl = GRANTED)"
      by (rule requestPermissions_statuses(1) [OF c l fc fl])
    show "permissionNotice \<in> set (trace (requestPermissions env s)) \<longleftrightarrow>
            \<not> (fc = GRANTED \<and> fl = GRANTED)"
      by (rule requestPermissions_statuses(2) [OF c l fc fl])
  }
next
  assume "PermissionRequest p \<in> set (trace (requestPermissions env s))"
  then show "check env p \<noteq> Inr GRANTED" by (rule requestPermissions_requests_only_needed)
next
  show "outcome (requestPermissions env s) = outcome (requestPermissions env s')"
    by (rule requestPermissions_ignores_state)
  show "trace (requestPermissions env s) = trace (requestPermissions env s')"
    by (rule requestPermissions_ignores_state)
qed

theorem requestPermissions_true_iff_both_granted_witness:
  "platformSelect (perm_OS location_denied_env) ANDROID_CAMERA IOS_CAMERA = Some ANDROID_CAMERA \<and>
   platformSelect (perm_OS location_denied_env) ANDROID_ACCESS_FINE_LOCATION
     IOS_LOCATION_WHEN_IN_USE = Some ANDROID_ACCESS_FINE_LOCATION \<and>
   check location_denied_env ANDROID_CAMERA = Inr GRANTED \<and>
   finalStatus location_denied_env ANDROID_CAMERA = Some GRANTED \<and>
   finalStatus location_denied_env ANDROID_ACCESS_FINE_LOCATION = Some DENIED \<and>
   PermissionRequest ANDROID_ACCESS_FINE_LOCATION
     \<in> set (trace (requestPermissions location_denied_env \<lparr>permissionsGranted_flag = True\<rparr>)) \<and>
   check location_denied_env ANDROID_ACCESS_FINE_LOCATION \<noteq> Inr GRANTED \<and>
   outcome (requestPermissions location_denied_env \<lparr>permissionsGranted_flag = True\<rparr>) =
     Resolved False \<and>
   \<not> permissionsGranted_flag
       (final (requestPermissions location_denied_env \<lparr>permissionsGranted_flag = True\<rparr>)) \<and>
   permissionNotice
     \<in> set (trace (requestPermissions location_denied_env \<lparr>permissionsGranted_flag = True\<rparr>)) \<and>
   perm_OS (location_denied_env\<lparr>perm_OS := OtherOS\<rparr>) = OtherOS \<and>
   outcome (requestPermissions (location_denied_env\<lparr>perm_OS := OtherOS\<rparr>)
              \<lparr>permissionsGranted_flag = True\<rparr>) = Resolved False"
proof -
  have h: "platformSelect (perm_OS location_denied_env) ANDROID_CAMERA IOS_CAMERA =
             Some ANDROID_CAMERA \<and>
           platformSelect (perm_OS location_denied_env) ANDROID_ACCESS_FINE_LOCATION
             IOS_LOCATION_WHEN_IN_USE = Some ANDROID_ACCESS_FINE_LOCATION"
    by (simp add: location_denied_env_def platformSelect_def)
  have k: "check location_denied_env ANDROID_CAMERA = Inr GRANTED"
    by (simp add: location_denied_env_def)
  have f: "finalStatus location_denied_env ANDROID_CAMERA = Some GRANTED \<and>
           finalStatus location_denied_env ANDROID_ACCESS_FINE_LOCATION = Some DENIED"
    by (simp add: location_denied_env_def finalStatus_def)
  have r: "PermissionRequest ANDROID_ACCESS_FINE_LOCATION
     \<in> set (trace (requestPermissions location_denied_env \<lparr>permissionsGranted_flag = True\<rparr>))"
    by (simp add: location_denied_run)
  have o: "perm_OS (location_denied_env\<lparr>perm_OS := OtherOS\<rparr>) = OtherOS" by simp
  note t = requestPermissions_true_iff_both_granted
    [of location_denied_env "\<lparr>permissionsGranted_flag = True\<rparr>" ANDROID_CAMERA
        ANDROID_ACCESS_FINE_LOCATION GRANTED GRANTED DENIED ANDROID_ACCESS_FINE_LOCATION]
  note u = requestPermissions_true_iff_both_granted
    [of "location_denied_env\<lparr>perm_OS := OtherOS\<rparr>" "\<lparr>permissionsGranted_flag = True\<rparr>"]
  from t h f have
    "outcome (requestPermissions location_denied_env \<lparr>permissionsGranted_flag = True\<rparr>) =
       Resolved (finalStatus location_denied_env ANDROID_CAMERA = Some GRANTED \<and>
                 finalStatus location_denied_env ANDROID_ACCESS_FINE_LOCATION = Some GRANTED)"
    by blast
  with f have a: "outcome (requestPermissions location_denied_env \<lparr>permissionsGranted_flag = True\<rparr>) =
       Resolved False"
    by simp
  from t h f have
    "permissionsGranted_flag
       (final (requestPermissions location_denied_env \<lparr>permissionsGranted_flag = True\<rparr>)) =
       (GRANTED = GRANTED \<and> DENIED = GRANTED) \<and>
     (permissionNotice
        \<in> set (trace (requestPermissions location_denied_env \<lparr>permissionsGranted_flag = True\<rparr>)) \<longleftrightarrow>
      \<not> (GRANTED = GRANTED \<and> DENIED = GRANTED))"
    by blast
  then have b: "\<not> permissionsGranted_flag
       (final (requestPermissions location_denied_env \<lparr>permissionsGranted_flag = True\<rparr>)) \<and>
     permissionNotice
        \<in> set (trace (requestPermissions location_denied_env \<lparr>permissionsGranted_flag = True\<rparr>))"
    by simp
  from t r have c: "check location_denied_env ANDROID_ACCESS_FINE_LOCATION \<noteq> Inr GRANTED"
    by blast
  from u o have d: "outcome (requestPermissions (location_denied_env\<lparr>perm_OS := OtherOS\<rparr>)
              \<lparr>permissionsGranted_flag = True\<rparr>) = Resolved False"
    by blast
  from h k f r a b c d o show ?thesis by blast
qed

text \<open>
  Claim C4 as it is stated, without the condition that both final statuses exist, fails:
  on \<open>request_failing_env\<close> the camera is granted and the location is denied, but the
  request for the location fails, so the \<^verbatim>\<open>catch\<close> is reached before the flag is set and
  before the notice: the promise resolves with \<^verbatim>\<open>false\<close>, a flag that was \<^verbatim>\<open>true\<close> stays
  \<^verbatim>\<open>true\<close>, and no notice is shown.
\<close>

theorem requestPermissions_request_fails_counterexample:
  "perm_OS request_failing_env = Android \<and>
   check request_failing_env ANDROID_CAMERA = Inr GRANTED \<and>
   check request_failing_env ANDROID_ACCESS_FINE_LOCATION = Inr DENIED \<and>
   request request_failing_env ANDROID_ACCESS_FINE_LOCATION = Inl ''Activity is not available'' \<and>
   requestPermissions request_failing_env \<lparr>permissionsGranted_flag = True\<rparr> =
     \<lparr>outcome = Resolved False,
      trace = [PermissionCheck ANDROID_CAMERA, PermissionCheck ANDROID_ACCESS_FINE_LOCATION,
               PermissionRequest ANDROID_ACCESS_FINE_LOCATION,
               ConsoleError ''Error requesting permissions:''],
      final = \<lparr>permissionsGranted_flag = True\<rparr>\<rparr> \<and>
   permissionsGranted_flag
     (final (requestPermissions request_failing_env \<lparr>permissionsGranted_flag = True\<rparr>)) \<and>
   permissionNotice
     \<notin> set (trace (requestPermissions request_failing_env \<lparr>permissionsGranted_flag = True\<rparr>))"
  by (simp add: requestPermissions_defs request_failing_env_def permissionNotice_def)

end
